theory Spec2Isabelle
  imports Main "HOL-Library.Word" "HOL-Library.Sublist"
begin

section \<open>JavaScript values\<close>

text \<open>
  A JavaScript string is a sequence of UTF-16 code units: \<open>length\<close> counts code units and
  \<open>includes\<close> compares them. \<open>lit\<close> embeds an ASCII literal of the source.
\<close>

type_synonym jsstring = "16 word list"

definition lit :: "string \<Rightarrow> jsstring" where
  "lit s = map of_char s"

text \<open>\<open>String.prototype.includes\<close>: the key occurs as a contiguous run of code units.\<close>

definition js_includes :: "jsstring \<Rightarrow> jsstring \<Rightarrow> bool" where
  "js_includes s key = sublist key s"

text \<open>
  The code units that \<open>String.prototype.trim\<close> strips (WhiteSpace and LineTerminator of
  ECMAScript): TAB, LF, VT, FF, CR, SP, NBSP, U+1680, U+2000..U+200A, U+2028, U+2029, U+202F,
  U+205F, U+3000, U+FEFF.
\<close>

definition is_whitespace :: "16 word \<Rightarrow> bool" where
  "is_whitespace c \<longleftrightarrow>
     c \<in> set [9, 10, 11, 12, 13, 32, 160, 5760, 8192, 8193, 8194, 8195, 8196, 8197, 8198,
              8199, 8200, 8201, 8202, 8232, 8233, 8239, 8287, 12288, 65279]"

definition trim :: "jsstring \<Rightarrow> jsstring" where
  "trim s = rev (dropWhile is_whitespace (rev (dropWhile is_whitespace s)))"

text \<open>
  The services are typed \<open>any\<close> towards the provider SDK, so provider data is an untyped value:
  undefined, null, booleans, numbers (integers and NaN stand for them: the program only tests
  their truthiness), strings, arrays and plain objects (an association list, first binding wins).
\<close>

datatype jsval =
    JUndefined
  | JNull
  | JBool bool
  | JNum int
  | JNaN
  | JStr jsstring
  | JArr "jsval list"
  | JObj "(string \<times> jsval) list"

fun truthy :: "jsval \<Rightarrow> bool" where
  "truthy JUndefined = False"
| "truthy JNull = False"
| "truthy (JBool b) = b"
| "truthy (JNum n) = (n \<noteq> 0)"
| "truthy JNaN = False"
| "truthy (JStr s) = (s \<noteq> [])"
| "truthy (JArr xs) = True"
| "truthy (JObj fs) = True"

fun nullish :: "jsval \<Rightarrow> bool" where
  "nullish JUndefined = True"
| "nullish JNull = True"
| "nullish v = False"

text \<open>
  \<open>v.p\<close> on a value that is not null or undefined, for the property names the program reads
  (\<open>data\<close>, \<open>error\<close>, \<open>user\<close>, \<open>session\<close>, \<open>message\<close>, \<open>id\<close>): an object yields its binding,
  everything else has no such property.
\<close>

fun field :: "jsval \<Rightarrow> string \<Rightarrow> jsval" where
  "field (JObj fs) p = (case map_of fs p of None \<Rightarrow> JUndefined | Some v \<Rightarrow> v)"
| "field v p = JUndefined"

text \<open>What a \<open>throw\<close> or a rejected promise carries.\<close>

datatype js_error = TypeError | Error jsstring | Thrown jsval

type_synonym 'a result = "js_error + 'a"

text \<open>\<open>v.p\<close> in general: reading a property of null or undefined raises a TypeError.\<close>

definition get_prop :: "jsval \<Rightarrow> string \<Rightarrow> jsval result" where
  "get_prop v p = (if nullish v then Inl TypeError else Inr (field v p))"

text \<open>\<open>v?.p\<close>\<close>

definition opt_chain :: "jsval \<Rightarrow> string \<Rightarrow> jsval" where
  "opt_chain v p = (if nullish v then JUndefined else field v p)"

text \<open>\<open>a || b\<close> and \<open>a ?? b\<close> on values.\<close>

definition or_else :: "jsval \<Rightarrow> jsval \<Rightarrow> jsval" where
  "or_else a b = (if truthy a then a else b)"

definition nullish_coalesce :: "jsval \<Rightarrow> jsval \<Rightarrow> jsval" where
  "nullish_coalesce a b = (if nullish a then b else a)"

text \<open>\<open>s || d\<close> for an optional string property: absent and empty are both falsy.\<close>

fun or_default :: "jsstring option \<Rightarrow> jsstring \<Rightarrow> jsstring" where
  "or_default None d = d"
| "or_default (Some s) d = (if s = [] then d else s)"

section \<open>supabase.ts\<close>

text \<open>
  The module body. \<open>window_supabase\<close> is the global the SDK script defines (absent when the
  script has not loaded), with its \<open>createClient\<close>; the two environment values are whatever
  the build put there. The result is the exported client, or what the module throws.
\<close>

definition supabaseClient ::
  "(jsval \<Rightarrow> jsval \<Rightarrow> 'c result) option \<Rightarrow> jsval \<Rightarrow> jsval \<Rightarrow> 'c result" where
  "supabaseClient window_supabase supabaseUrl supabaseKey =
     (if \<not> truthy supabaseUrl \<or> \<not> truthy supabaseKey
      then Inl (Error (lit ''Missing Supabase environment variables''))
      else (case window_supabase of
              None \<Rightarrow> Inl TypeError
            | Some createClient \<Rightarrow> createClient supabaseUrl supabaseKey))"

section \<open>The provider SDK as the services use it\<close>

text \<open>
  Each SDK call either resolves to a value (\<open>Inr\<close>) or throws or rejects (\<open>Inl\<close>); a missing
  method is one more way to throw.
\<close>

record provider =
  signInWithPassword :: "jsstring \<Rightarrow> jsstring \<Rightarrow> jsval result"
  signUp :: "jsstring \<Rightarrow> jsstring \<Rightarrow> jsval result"
  signOut :: "jsval result"
  auth_getSession :: "jsval result"
  auth_getUser :: "jsval result"
  insert_profiles :: "jsval \<Rightarrow> jsstring \<Rightarrow> jsval result"

section \<open>authService.ts and profileService.ts: results\<close>

text \<open>
  \<open>ProfileResponse\<close> is \<open>{success, error?}\<close> and \<open>AuthResponse\<close> adds \<open>user?\<close> and \<open>session?\<close>;
  \<open>None\<close> is a property the object literal does not have.
\<close>

record ProfileResponse =
  success :: bool
  error :: "jsstring option"

record AuthResponse = ProfileResponse +
  user :: "jsval option"
  session :: "jsval option"

definition failure :: "jsstring \<Rightarrow> AuthResponse" where
  "failure m = \<lparr>success = False, error = Some m, user = None, session = None\<rparr>"

subsection \<open>formatErrorMessage\<close>

text \<open>\<open>Object.entries(errorMap)\<close>: string keys come in insertion order.\<close>

definition errorMap :: "(jsstring \<times> jsstring) list" where
  "errorMap =
    [(lit ''Invalid login credentials'', lit ''Invalid email or password''),
     (lit ''Email not confirmed'', lit ''Please confirm your email before logging in''),
     (lit ''User already registered'', lit ''This email is already registered''),
     (lit ''Password should be at least 6 characters'',
      lit ''Password must be at least 6 characters''),
     (lit ''User not found'', lit ''No account found with this email'')]"

text \<open>The \<open>for ... of\<close> loop with its \<open>return\<close> inside.\<close>

fun first_match :: "(jsstring \<Rightarrow> bool) \<Rightarrow> (jsstring \<times> jsstring) list \<Rightarrow> jsstring option" where
  "first_match inc [] = None"
| "first_match inc ((key, message) # es) =
     (if inc key then Some message else first_match inc es)"

definition formatErrorMessage :: "jsstring \<Rightarrow> jsstring" where
  "formatErrorMessage rawError =
     (case first_match (js_includes rawError) errorMap of
        Some message \<Rightarrow> message
      | None \<Rightarrow> lit ''Authentication failed. Please try again'')"

text \<open>
  The argument is \<open>error.message\<close> of an untyped provider error. On an array \<open>includes\<close> is
  \<open>Array.prototype.includes\<close> (some element is the key); on anything else but a string there
  is no callable \<open>includes\<close> and the first iteration raises a TypeError.
\<close>

fun formatErrorMessage_any :: "jsval \<Rightarrow> jsstring result" where
  "formatErrorMessage_any (JStr rawError) = Inr (formatErrorMessage rawError)"
| "formatErrorMessage_any (JArr xs) =
     Inr (case first_match (\<lambda>key. JStr key \<in> set xs) errorMap of
            Some message \<Rightarrow> message
          | None \<Rightarrow> lit ''Authentication failed. Please try again'')"
| "formatErrorMessage_any v = Inl TypeError"

subsection \<open>login, signup, logout\<close>

text \<open>
  The body of the \<open>try\<close> of \<open>login\<close> and of \<open>signup\<close> after the SDK call: destructuring
  \<open>{data, error}\<close>, the error branch and the success branch.
\<close>

definition credential_try :: "jsval result \<Rightarrow> AuthResponse result" where
  "credential_try called =
     (case called of
        Inl e \<Rightarrow> Inl e
      | Inr response \<Rightarrow>
          if nullish response then Inl TypeError
          else
            let data = field response ''data''; err = field response ''error'' in
            if truthy err then
              (case formatErrorMessage_any (field err ''message'') of
                 Inl e \<Rightarrow> Inl e
               | Inr m \<Rightarrow> Inr (failure m))
            else if nullish data then Inl TypeError
            else Inr \<lparr>success = True, error = None,
                      user = Some (field data ''user''),
                      session = Some (field data ''session'')\<rparr>)"

definition login :: "provider \<Rightarrow> jsstring \<Rightarrow> jsstring \<Rightarrow> AuthResponse result" where
  "login sdk email password =
     (case credential_try (signInWithPassword sdk email password) of
        Inl e \<Rightarrow> Inr (failure (lit ''An unexpected error occurred during login''))
      | Inr r \<Rightarrow> Inr r)"

definition signup :: "provider \<Rightarrow> jsstring \<Rightarrow> jsstring \<Rightarrow> AuthResponse result" where
  "signup sdk email password =
     (case credential_try (signUp sdk email password) of
        Inl e \<Rightarrow> Inr (failure (lit ''An unexpected error occurred during signup''))
      | Inr r \<Rightarrow> Inr r)"

definition logout_try :: "jsval result \<Rightarrow> AuthResponse result" where
  "logout_try called =
     (case called of
        Inl e \<Rightarrow> Inl e
      | Inr response \<Rightarrow>
          if nullish response then Inl TypeError
          else if truthy (field response ''error'') then Inr (failure (lit ''Failed to logout''))
          else Inr \<lparr>success = True, error = None, user = None, session = None\<rparr>)"

definition logout :: "provider \<Rightarrow> AuthResponse result" where
  "logout sdk =
     (case logout_try (signOut sdk) of
        Inl e \<Rightarrow> Inr (failure (lit ''An unexpected error occurred during logout''))
      | Inr r \<Rightarrow> Inr r)"

subsection \<open>getSession, getUser\<close>

definition getSession_try :: "jsval result \<Rightarrow> jsval result" where
  "getSession_try called =
     (case called of
        Inl e \<Rightarrow> Inl e
      | Inr response \<Rightarrow>
          if nullish response then Inl TypeError
          else get_prop (field response ''data'') ''session'')"

definition getSession :: "provider \<Rightarrow> jsval result" where
  "getSession sdk =
     (case getSession_try (auth_getSession sdk) of Inl e \<Rightarrow> Inr JNull | Inr v \<Rightarrow> Inr v)"

definition getUser_try :: "jsval result \<Rightarrow> jsval result" where
  "getUser_try called =
     (case called of
        Inl e \<Rightarrow> Inl e
      | Inr response \<Rightarrow>
          if nullish response then Inl TypeError
          else (case get_prop (field response ''data'') ''user'' of
                  Inl e \<Rightarrow> Inl e
                | Inr u \<Rightarrow> Inr (or_else u JNull)))"

definition getUser :: "provider \<Rightarrow> jsval result" where
  "getUser sdk =
     (case getUser_try (auth_getUser sdk) of Inl e \<Rightarrow> Inr JNull | Inr v \<Rightarrow> Inr v)"

subsection \<open>createUserProfile\<close>

definition createUserProfile_try :: "jsval result \<Rightarrow> ProfileResponse result" where
  "createUserProfile_try called =
     (case called of
        Inl e \<Rightarrow> Inl e
      | Inr response \<Rightarrow>
          if nullish response then Inl TypeError
          else if truthy (field response ''error'')
          then Inr \<lparr>success = False, error = Some (lit ''Failed to create user profile'')\<rparr>
          else Inr \<lparr>success = True, error = None\<rparr>)"

definition createUserProfile :: "provider \<Rightarrow> jsval \<Rightarrow> jsstring \<Rightarrow> ProfileResponse result" where
  "createUserProfile sdk userId username =
     (case createUserProfile_try (insert_profiles sdk userId username) of
        Inl e \<Rightarrow> Inr \<lparr>success = False,
                       error = Some (lit ''An unexpected error occurred while creating profile'')\<rparr>
      | Inr r \<Rightarrow> Inr r)"

subsection \<open>The auth-state listeners\<close>

text \<open>
  A callback is a function reference, compared by identity: a number names it. What the
  function does when called is its behaviour: it may register callbacks, call unsubscribe
  handles and throw. The handle that \<open>onAuthStateChange callback\<close> returns closes over
  \<open>callback\<close> alone, so calling it is \<open>unsubscribe callback\<close>.
\<close>

type_synonym callback = nat

datatype action = Subscribe callback | Unsubscribe callback | Throw js_error

text \<open>
  \<open>authStateListeners\<close> holds a reference to an array object: \<open>push\<close> changes the object in
  place, \<open>filter\<close> allocates a new one and the assignment redirects the reference. \<open>heap\<close>
  maps references to array contents and \<open>next_ref\<close> is the next one to allocate. The last two
  fields observe the run: the calls \<open>callback(user)\<close> made so far, and what \<open>console.error\<close>
  received from the \<open>catch\<close> of \<open>notifyListeners\<close>.
\<close>

record AuthService =
  heap :: "nat \<Rightarrow> callback list"
  next_ref :: nat
  authStateListeners :: nat
  invoked :: "(callback \<times> jsval) list"
  console_error :: "js_error list"

type_synonym behaviour = "callback \<Rightarrow> jsval \<Rightarrow> AuthService \<Rightarrow> action list"

definition new_AuthService :: AuthService where
  "new_AuthService =
     \<lparr>heap = (\<lambda>r. []), next_ref = 1, authStateListeners = 0, invoked = [], console_error = []\<rparr>"

definition listeners :: "AuthService \<Rightarrow> callback list" where
  "listeners s = heap s (authStateListeners s)"

definition onAuthStateChange :: "callback \<Rightarrow> AuthService \<Rightarrow> AuthService" where
  "onAuthStateChange callback s =
     s\<lparr>heap := (heap s)(authStateListeners s := heap s (authStateListeners s) @ [callback])\<rparr>"

definition unsubscribe :: "callback \<Rightarrow> AuthService \<Rightarrow> AuthService" where
  "unsubscribe callback s =
     s\<lparr>heap := (heap s)(next_ref s :=
                  filter (\<lambda>listener. listener \<noteq> callback) (heap s (authStateListeners s))),
       authStateListeners := next_ref s,
       next_ref := Suc (next_ref s)\<rparr>"

text \<open>The body of a callback: its actions in order, up to the first throw.\<close>

fun run_actions :: "action list \<Rightarrow> AuthService \<Rightarrow> js_error option \<times> AuthService" where
  "run_actions [] s = (None, s)"
| "run_actions (Subscribe c # as) s = run_actions as (onAuthStateChange c s)"
| "run_actions (Unsubscribe c # as) s = run_actions as (unsubscribe c s)"
| "run_actions (Throw e # as) s = (Some e, s)"

definition call_callback ::
  "behaviour \<Rightarrow> callback \<Rightarrow> jsval \<Rightarrow> AuthService \<Rightarrow> js_error option \<times> AuthService" where
  "call_callback beh callback u s =
     (let s' = s\<lparr>invoked := invoked s @ [(callback, u)]\<rparr>
      in run_actions (beh callback u s') s')"

text \<open>
  \<open>Array.prototype.forEach\<close> on the array object \<open>r\<close>: the length is read once, before the
  first call; index \<open>k\<close> is visited if the array has it by then. \<open>n\<close> counts the indices left.
  The function passed to it is the \<open>try\<close>/\<open>catch\<close> around \<open>callback(user)\<close>.
\<close>

fun forEach_from ::
  "behaviour \<Rightarrow> jsval \<Rightarrow> nat \<Rightarrow> nat \<Rightarrow> nat \<Rightarrow> AuthService \<Rightarrow> AuthService" where
  "forEach_from beh u r 0 k s = s"
| "forEach_from beh u r (Suc n) k s =
     (if k < length (heap s r) then
        (case call_callback beh (heap s r ! k) u s of
           (None, s') \<Rightarrow> forEach_from beh u r n (Suc k) s'
         | (Some err, s') \<Rightarrow>
             forEach_from beh u r n (Suc k) (s'\<lparr>console_error := console_error s' @ [err]\<rparr>))
      else forEach_from beh u r n (Suc k) s)"

definition notifyListeners :: "behaviour \<Rightarrow> jsval \<Rightarrow> AuthService \<Rightarrow> AuthService" where
  "notifyListeners beh u s =
     (let r = authStateListeners s in forEach_from beh u r (length (heap s r)) 0 s)"

text \<open>
  The function that \<open>initializeAuthStateListener\<close> hands to the provider's
  \<open>onAuthStateChange\<close>: \<open>session?.user || null\<close>, then the fan-out.
\<close>

definition session_user :: "jsval \<Rightarrow> jsval" where
  "session_user sess = or_else (opt_chain sess ''user'') JNull"

definition authStateChanged ::
  "behaviour \<Rightarrow> jsstring \<Rightarrow> jsval \<Rightarrow> AuthService \<Rightarrow> AuthService" where
  "authStateChanged beh event sess s = notifyListeners beh (session_user sess) s"

section \<open>The page handlers\<close>

text \<open>
  What a handler does to the page and to the outside, in order. The elements the handlers look
  up are taken to exist.
\<close>

datatype effect =
    ShowError jsstring
  | ButtonLoading
  | ButtonRestore
  | GatewayLogin jsstring jsstring
  | GatewaySignup jsstring jsstring
  | GatewayCreateProfile jsval jsstring
  | ProviderSignUp jsstring jsstring
  | ProviderInsert jsval jsstring
  | Navigate jsstring

record page =
  email_value :: jsstring
  password_value :: jsstring
  username_value :: jsstring
  button_disabled :: bool
  button_loading :: bool
  button_text :: jsstring
  error_text :: jsstring
  error_show :: bool
  location_href :: jsstring
  trace :: "effect list"

definition clearError :: "page \<Rightarrow> page" where
  "clearError pg = pg\<lparr>error_text := [], error_show := False\<rparr>"

definition showError :: "jsstring \<Rightarrow> page \<Rightarrow> page" where
  "showError message pg =
     pg\<lparr>error_text := message, error_show := True, trace := trace pg @ [ShowError message]\<rparr>"

definition show_loading :: "page \<Rightarrow> page" where
  "show_loading pg =
     pg\<lparr>button_disabled := True, button_loading := True, button_text := [],
        trace := trace pg @ [ButtonLoading]\<rparr>"

text \<open>The \<open>finally\<close> block.\<close>

definition restore_button :: "jsstring \<Rightarrow> page \<Rightarrow> page" where
  "restore_button originalText pg =
     pg\<lparr>button_disabled := False, button_loading := False, button_text := originalText,
        trace := trace pg @ [ButtonRestore]\<rparr>"

definition navigate :: "jsstring \<Rightarrow> page \<Rightarrow> page" where
  "navigate url pg = pg\<lparr>location_href := url, trace := trace pg @ [Navigate url]\<rparr>"

definition log_call :: "effect \<Rightarrow> page \<Rightarrow> page" where
  "log_call e pg = pg\<lparr>trace := trace pg @ [e]\<rparr>"

text \<open>
  The \<open>catch\<close> block reads \<open>err.message\<close> first: when what was thrown is null or undefined that
  read raises a TypeError, which leaves the handler after the \<open>finally\<close> block.
\<close>

fun has_message :: "js_error \<Rightarrow> bool" where
  "has_message (Thrown v) = (\<not> nullish v)"
| "has_message e = True"

definition catch_unexpected :: "js_error \<Rightarrow> page \<Rightarrow> js_error option \<times> page" where
  "catch_unexpected err pg =
     (if has_message err
      then (None, showError (lit ''An unexpected error occurred. Please try again.'') pg)
      else (Some TypeError, pg))"

subsection \<open>login.ts\<close>

text \<open>
  The handlers take the services they import as arguments. The result is the page afterwards,
  with the exception the handler's promise rejects with, if any.
\<close>

definition handleLogin ::
  "(jsstring \<Rightarrow> jsstring \<Rightarrow> AuthResponse result) \<Rightarrow> page \<Rightarrow> js_error option \<times> page" where
  "handleLogin authService_login pg0 =
     (let email = trim (email_value pg0);
          password = password_value pg0;
          pg1 = clearError pg0
      in
        if email = [] \<or> password = []
        then (None, showError (lit ''Please enter both email and password'') pg1)
        else if \<not> js_includes email (lit ''@'')
        then (None, showError (lit ''Please enter a valid email address'') pg1)
        else
          let originalText = button_text pg1;
              pg2 = log_call (GatewayLogin email password) (show_loading pg1);
              (thrown, pg3) =
                (case authService_login email password of
                   Inl err \<Rightarrow> catch_unexpected err pg2
                 | Inr result \<Rightarrow>
                     if success result
                     then (None, navigate (lit ''hub.html'') pg2)
                     else (None, showError (or_default (error result) (lit ''Login failed'')) pg2))
          in (thrown, restore_button originalText pg3))"

subsection \<open>signup.ts\<close>

definition user_value :: "AuthResponse \<Rightarrow> jsval" where
  "user_value r = (case user r of None \<Rightarrow> JUndefined | Some v \<Rightarrow> v)"

definition signup_try ::
  "(jsstring \<Rightarrow> jsstring \<Rightarrow> AuthResponse result) \<Rightarrow>
   (jsval \<Rightarrow> jsstring \<Rightarrow> ProfileResponse result) \<Rightarrow>
   jsstring \<Rightarrow> jsstring \<Rightarrow> jsstring \<Rightarrow> page \<Rightarrow> js_error option \<times> page" where
  "signup_try authService_signup profileService_createUserProfile email password username pg =
     (let pg1 = log_call (GatewaySignup email password) pg in
      case authService_signup email password of
        Inl err \<Rightarrow> catch_unexpected err pg1
      | Inr signupResult \<Rightarrow>
          if \<not> success signupResult
          then (None, showError (or_default (error signupResult) (lit ''Signup failed'')) pg1)
          else if \<not> truthy (user_value signupResult)
                  \<or> \<not> truthy (field (user_value signupResult) ''id'')
          then (None, showError (lit ''Failed to create user account'') pg1)
          else
            let userId = field (user_value signupResult) ''id'';
                pg2 = log_call (GatewayCreateProfile userId username) pg1
            in
              case profileService_createUserProfile userId username of
                Inl err \<Rightarrow> catch_unexpected err pg2
              | Inr profileResult \<Rightarrow>
                  if \<not> success profileResult
                  then (None, showError (or_default (error profileResult)
                                           (lit ''Failed to create user profile'')) pg2)
                  else (None, navigate (lit ''hub.html'') pg2))"

definition handleSignup ::
  "(jsstring \<Rightarrow> jsstring \<Rightarrow> AuthResponse result) \<Rightarrow>
   (jsval \<Rightarrow> jsstring \<Rightarrow> ProfileResponse result) \<Rightarrow> page \<Rightarrow> js_error option \<times> page" where
  "handleSignup authService_signup profileService_createUserProfile pg0 =
     (let email = trim (email_value pg0);
          password = password_value pg0;
          username = trim (username_value pg0);
          pg1 = clearError pg0
      in
        if email = [] \<or> password = [] \<or> username = []
        then (None, showError (lit ''Please fill in all fields'') pg1)
        else if \<not> js_includes email (lit ''@'')
        then (None, showError (lit ''Please enter a valid email address'') pg1)
        else if length password < 6
        then (None, showError (lit ''Password must be at least 6 characters'') pg1)
        else if length username < 3
        then (None, showError (lit ''Username must be at least 3 characters'') pg1)
        else
          let originalText = button_text pg1;
              (thrown, pg2) =
                signup_try authService_signup profileService_createUserProfile
                  email password username (show_loading pg1)
          in (thrown, restore_button originalText pg2))"

subsection \<open>The legacy signup script\<close>


section \<open>Vocabulary of the properties\<close>

text \<open>
  References in use lie below \<open>next_ref\<close>, so that a newly allocated array never overwrites a
  live one. The fresh service satisfies this and every operation keeps it.
\<close>

definition allocated :: "AuthService \<Rightarrow> bool" where
  "allocated s \<longleftrightarrow> authStateListeners s < next_ref s"

text \<open>Sample behaviours: a callback that does nothing else, \<close>

definition quiet :: behaviour where
  "quiet callback u s = []"

text \<open>callbacks that throw as soon as they are called (those \<open>throwers\<close> gives an error), \<close>

definition throwing :: "(callback \<Rightarrow> js_error option) \<Rightarrow> behaviour" where
  "throwing throwers callback u s =
     (case throwers callback of None \<Rightarrow> [] | Some e \<Rightarrow> [Throw e])"

text \<open>
  and the callback \<open>d\<close> calling the unsubscribe handle of \<open>t\<close> whenever it is called (\<open>t = d\<close>:
  it unsubscribes itself), every other callback doing nothing.
\<close>

definition unsubscribing :: "callback \<Rightarrow> callback \<Rightarrow> behaviour" where
  "unsubscribing d t callback u s = (if callback = d then [Unsubscribe t] else [])"

text \<open>\<open>a ?? null\<close> on the session's user, the reading with the nullish operator.\<close>

definition session_user_nullish :: "jsval \<Rightarrow> jsval" where
  "session_user_nullish sess = nullish_coalesce (opt_chain sess ''user'') JNull"

text \<open>A service or SDK call that answers \<open>r\<close> whatever its two arguments are.\<close>

definition answering :: "'r \<Rightarrow> 'a \<Rightarrow> 'b \<Rightarrow> 'r" where
  "answering r a b = r"

text \<open>A provider none of whose calls gets through: each one rejects with a TypeError.\<close>

definition offline :: provider where
  "offline =
     \<lparr>signInWithPassword = answering (Inl TypeError),
      signUp = answering (Inl TypeError),
      signOut = Inl TypeError,
      auth_getSession = Inl TypeError,
      auth_getUser = Inl TypeError,
      insert_profiles = answering (Inl TypeError)\<rparr>"

text \<open>Every message the auth operations can put into \<open>error\<close>.\<close>

definition auth_messages :: "jsstring list" where
  "auth_messages =
     map snd errorMap @
     [lit ''Authentication failed. Please try again'',
      lit ''An unexpected error occurred during login'',
      lit ''An unexpected error occurred during signup'',
      lit ''Failed to logout'',
      lit ''An unexpected error occurred during logout'']"

text \<open>
  The two shapes of a result: a success without \<open>error\<close>, or a failure that carries one of
  the fixed messages and neither \<open>user\<close> nor \<open>session\<close>.
\<close>

definition exclusive :: "AuthResponse \<Rightarrow> bool" where
  "exclusive r \<longleftrightarrow>
     (if success r then error r = None
      else (case error r of None \<Rightarrow> False | Some m \<Rightarrow> m \<in> set auth_messages \<and> m \<noteq> [])
           \<and> user r = None \<and> session r = None)"

text \<open>What a handler adds to the page's trace.\<close>

definition effects :: "(page \<Rightarrow> js_error option \<times> page) \<Rightarrow> page \<Rightarrow> effect list" where
  "effects handler pg = drop (length (trace pg)) (trace (snd (handler pg)))"

text \<open>A filled-in form before submission.\<close>

definition sample_page :: page where
  "sample_page =
     \<lparr>email_value = lit ''kieran@example.com'', password_value = lit ''s3cret!'',
      username_value = lit '' kieran '', button_disabled = False, button_loading = False,
      button_text = lit ''Sign up'', error_text = lit ''Login failed'', error_show = True,
      location_href = lit ''index.html'', trace = []\<rparr>"

text \<open>The inputs with which a handler gets past its local checks.\<close>

definition login_inputs_valid :: "page \<Rightarrow> bool" where
  "login_inputs_valid pg \<longleftrightarrow>
     trim (email_value pg) \<noteq> [] \<and> password_value pg \<noteq> []
     \<and> js_includes (trim (email_value pg)) (lit ''@'')"

definition signup_inputs_valid :: "page \<Rightarrow> bool" where
  "signup_inputs_valid pg \<longleftrightarrow>
     trim (email_value pg) \<noteq> [] \<and> password_value pg \<noteq> [] \<and> trim (username_value pg) \<noteq> []
     \<and> js_includes (trim (email_value pg)) (lit ''@'')
     \<and> 6 \<le> length (password_value pg) \<and> 3 \<le> length (trim (username_value pg))"

text \<open>What the \<open>try\<close> block of \<open>handleSignup\<close> adds to the trace.\<close>

definition try_effects :: "(jsstring \<Rightarrow> jsstring \<Rightarrow> AuthResponse result) \<Rightarrow>
   (jsval \<Rightarrow> jsstring \<Rightarrow> ProfileResponse result) \<Rightarrow> page \<Rightarrow> effect list" where
  "try_effects S P pg =
     drop (length (trace (show_loading (clearError pg))))
       (trace (snd (signup_try S P (trim (email_value pg)) (password_value pg)
                      (trim (username_value pg)) (show_loading (clearError pg)))))"

text \<open>
  Modelled from the spec: the types of the provider SDK's values, which the repository does
  not declare (its client is typed \<open>any\<close>). A SessionRecord and a UserRecord are records that
  the provider issues, so a session or user it hands over is an object, or null (undefined
  counted with it) when there is none.
\<close>

fun record_or_none :: "jsval \<Rightarrow> bool" where
  "record_or_none (JObj fs) = True"
| "record_or_none JNull = True"
| "record_or_none JUndefined = True"
| "record_or_none v = False"

text \<open>
  Modelled from the spec: the \<open>session\<close> of an event of the provider's auth-state stream,
  which emits \<open>(eventName, session)\<close> pairs: no session, or a session record whose \<open>user\<close> is a
  user record or missing.
\<close>

definition provider_session :: "jsval \<Rightarrow> bool" where
  "provider_session sess \<longleftrightarrow>
     record_or_none sess \<and> record_or_none (opt_chain sess ''user'')"

text \<open>
  Modelled from the spec: what the provider's get-current-session and get-current-user
  calls resolve to, with or without a structured error: an object whose \<open>data\<close> is an object
  holding the session record (resp. user record), or null when there is none.
\<close>

fun session_or_null :: "jsval \<Rightarrow> bool" where
  "session_or_null (JObj fs) = True"
| "session_or_null JNull = True"
| "session_or_null v = False"

text \<open>
  Modelled from the spec: the shape of such a response, \<open>what\<close> being \<open>session\<close> or \<open>user\<close>.
\<close>

definition provider_response :: "string \<Rightarrow> jsval \<Rightarrow> bool" where
  "provider_response what response \<longleftrightarrow>
     (case response of
        JObj fs \<Rightarrow>
          (case field response ''data'' of
             JObj ds \<Rightarrow> session_or_null (field (field response ''data'') what)
           | _ \<Rightarrow> False)
      | _ \<Rightarrow> False)"

section \<open>Error normalisation\<close>

lemma first_match_first:
  "i < length es \<Longrightarrow> inc (fst (es ! i)) \<Longrightarrow> (\<forall>j<i. \<not> inc (fst (es ! j)))
   \<Longrightarrow> first_match inc es = Some (snd (es ! i))"
proof (induction es arbitrary: i)
  case Nil
  then show ?case by simp
next
  case (Cons e es)
  obtain key message where e: "e = (key, message)" by (cases e)
  show ?case
  proof (cases i)
    case 0
    with Cons.prems e show ?thesis by simp
  next
    case (Suc k)
    from Cons.prems Suc have "\<not> inc (fst ((e # es) ! 0))" by blast
    hence nk: "\<not> inc key" using e by simp
    have "first_match inc es = Some (snd (es ! k))"
    proof (rule Cons.IH)
      show "k < length es" using Cons.prems Suc by simp
      show "inc (fst (es ! k))" using Cons.prems Suc by simp
      show "\<forall>j<k. \<not> inc (fst (es ! j))"
      proof (intro allI impI)
        fix j assume "j < k"
        hence "Suc j < i" using Suc by simp
        with Cons.prems have "\<not> inc (fst ((e # es) ! Suc j))" by blast
        thus "\<not> inc (fst (es ! j))" by simp
      qed
    qed
    with nk e Suc show ?thesis by simp
  qed
qed

lemma first_match_none:
  "(\<forall>key\<in>set (map fst es). \<not> inc key) \<Longrightarrow> first_match inc es = None"
  by (induction es) auto

lemma first_match_message:
  "first_match inc es = Some m \<Longrightarrow> m \<in> set (map snd es)"
  by (induction es) (auto split: if_splits)

lemma credential_try_error_string:
  assumes "outcome = Inr response" "\<not> nullish response" "truthy (field response ''error'')"
    "field (field response ''error'') ''message'' = JStr raw"
  shows "credential_try outcome = Inr (failure (formatErrorMessage raw))"
  using assms by (simp add: credential_try_def Let_def)

text \<open>
  C1. \<open>formatErrorMessage\<close> goes through the five entries of the table in their order and
  returns the message of the first key that the raw string contains. Row by row: a raw string
  that contains \<open>Invalid login credentials\<close> gives \<open>Invalid email or password\<close> whatever else it
  contains; otherwise one that contains \<open>Email not confirmed\<close> gives \<open>Please confirm your email
  before logging in\<close>; otherwise \<open>User already registered\<close> gives \<open>This email is already
  registered\<close>; otherwise \<open>Password should be at least 6 characters\<close> gives \<open>Password must be
  at least 6 characters\<close>; otherwise \<open>User not found\<close> gives \<open>No account found with this
  email\<close>; and a raw string that contains none of the five keys gives \<open>Authentication failed.
  Please try again\<close>. \<open>login\<close> and \<open>signup\<close> return the message so found as their \<open>error\<close>.
\<close>

theorem formatErrorMessage_table:
  "((js_includes raw (lit ''Invalid login credentials'')
      \<longrightarrow> formatErrorMessage raw = lit ''Invalid email or password'')
    \<and> (\<not> js_includes raw (lit ''Invalid login credentials'')
        \<and> js_includes raw (lit ''Email not confirmed'')
      \<longrightarrow> formatErrorMessage raw = lit ''Please confirm your email before logging in'')
    \<and> (\<not> js_includes raw (lit ''Invalid login credentials'')
        \<and> \<not> js_includes raw (lit ''Email not confirmed'')
        \<and> js_includes raw (lit ''User already registered'')
      \<longrightarrow> formatErrorMessage raw = lit ''This email is already registered'')
    \<and> (\<not> js_includes raw (lit ''Invalid login credentials'')
        \<and> \<not> js_includes raw (lit ''Email not confirmed'')
        \<and> \<not> js_includes raw (lit ''User already registered'')
        \<and> js_includes raw (lit ''Password should be at least 6 characters'')
      \<longrightarrow> formatErrorMessage raw = lit ''Password must be at least 6 characters'')
    \<and> (\<not> js_includes raw (lit ''Invalid login credentials'')
        \<and> \<not> js_includes raw (lit ''Email not confirmed'')
        \<and> \<not> js_includes raw (lit ''User already registered'')
        \<and> \<not> js_includes raw (lit ''Password should be at least 6 characters'')
        \<and> js_includes raw (lit ''User not found'')
      \<longrightarrow> formatErrorMessage raw = lit ''No account found with this email'')
    \<and> (\<not> js_includes raw (lit ''Invalid login credentials'')
        \<and> \<not> js_includes raw (lit ''Email not confirmed'')
        \<and> \<not> js_includes raw (lit ''User already registered'')
        \<and> \<not> js_includes raw (lit ''Password should be at least 6 characters'')
        \<and> \<not> js_includes raw (lit ''User not found'')
      \<longrightarrow> formatErrorMessage raw = lit ''Authentication failed. Please try again''))
   \<and> ((\<forall>key\<in>set (map fst errorMap). \<not> js_includes raw key)
      \<longrightarrow> formatErrorMessage raw = lit ''Authentication failed. Please try again'')
   \<and> (\<forall>i<length errorMap.
        js_includes raw (fst (errorMap ! i)) \<and> (\<forall>j<i. \<not> js_includes raw (fst (errorMap ! j)))
        \<longrightarrow> formatErrorMessage raw = snd (errorMap ! i))
   \<and> errorMap =
        [(lit ''Invalid login credentials'', lit ''Invalid email or password''),
         (lit ''Email not confirmed'', lit ''Please confirm your email before logging in''),
         (lit ''User already registered'', lit ''This email is already registered''),
         (lit ''Password should be at least 6 characters'',
          lit ''Password must be at least 6 characters''),
         (lit ''User not found'', lit ''No account found with this email'')]
   \<and> (signInWithPassword sdk email password = Inr response \<and> \<not> nullish response
        \<and> truthy (field response ''error'')
        \<and> field (field response ''error'') ''message'' = JStr raw
      \<longrightarrow> login sdk email password = Inr (failure (formatErrorMessage raw)))
   \<and> (signUp sdk email password = Inr response \<and> \<not> nullish response
        \<and> truthy (field response ''error'')
        \<and> field (field response ''error'') ''message'' = JStr raw
      \<longrightarrow> signup sdk email password = Inr (failure (formatErrorMessage raw)))"
proof -
  have rows:
   "(js_includes raw (lit ''Invalid login credentials'')
      \<longrightarrow> formatErrorMessage raw = lit ''Invalid email or password'')
    \<and> (\<not> js_includes raw (lit ''Invalid login credentials'')
        \<and> js_includes raw (lit ''Email not confirmed'')
      \<longrightarrow> formatErrorMessage raw = lit ''Please confirm your email before logging in'')
    \<and> (\<not> js_includes raw (lit ''Invalid login credentials'')
        \<and> \<not> js_includes raw (lit ''Email not confirmed'')
        \<and> js_includes raw (lit ''User already registered'')
      \<longrightarrow> formatErrorMessage raw = lit ''This email is already registered'')
    \<and> (\<not> js_includes raw (lit ''Invalid login credentials'')
        \<and> \<not> js_includes raw (lit ''Email not confirmed'')
        \<and> \<not> js_includes raw (lit ''User already registered'')
        \<and> js_includes raw (lit ''Password should be at least 6 characters'')
      \<longrightarrow> formatErrorMessage raw = lit ''Password must be at least 6 characters'')
    \<and> (\<not> js_includes raw (lit ''Invalid login credentials'')
        \<and> \<not> js_includes raw (lit ''Email not confirmed'')
        \<and> \<not> js_includes raw (lit ''User already registered'')
        \<and> \<not> js_includes raw (lit ''Password should be at least 6 characters'')
        \<and> js_includes raw (lit ''User not found'')
      \<longrightarrow> formatErrorMessage raw = lit ''No account found with this email'')
    \<and> (\<not> js_includes raw (lit ''Invalid login credentials'')
        \<and> \<not> js_includes raw (lit ''Email not confirmed'')
        \<and> \<not> js_includes raw (lit ''User already registered'')
        \<and> \<not> js_includes raw (lit ''Password should be at least 6 characters'')
        \<and> \<not> js_includes raw (lit ''User not found'')
      \<longrightarrow> formatErrorMessage raw = lit ''Authentication failed. Please try again'')"
    by (simp add: formatErrorMessage_def errorMap_def)
  have none: "(\<forall>key\<in>set (map fst errorMap). \<not> js_includes raw key)
      \<longrightarrow> formatErrorMessage raw = lit ''Authentication failed. Please try again''"
    using first_match_none [of errorMap "js_includes raw"]
    by (simp add: formatErrorMessage_def)
  have ordered: "\<forall>i<length errorMap.
        js_includes raw (fst (errorMap ! i)) \<and> (\<forall>j<i. \<not> js_includes raw (fst (errorMap ! j)))
        \<longrightarrow> formatErrorMessage raw = snd (errorMap ! i)"
    using first_match_first [of _ errorMap "js_includes raw"]
    by (simp add: formatErrorMessage_def)
  have table: "errorMap =
        [(lit ''Invalid login credentials'', lit ''Invalid email or password''),
         (lit ''Email not confirmed'', lit ''Please confirm your email before logging in''),
         (lit ''User already registered'', lit ''This email is already registered''),
         (lit ''Password should be at least 6 characters'',
          lit ''Password must be at least 6 characters''),
         (lit ''User not found'', lit ''No account found with this email'')]"
    by (simp add: errorMap_def)
  have li: "signInWithPassword sdk email password = Inr response \<and> \<not> nullish response
        \<and> truthy (field response ''error'')
        \<and> field (field response ''error'') ''message'' = JStr raw
      \<longrightarrow> login sdk email password = Inr (failure (formatErrorMessage raw))"
    using credential_try_error_string [of "signInWithPassword sdk email password" response raw]
    by (simp add: login_def)
  have su: "signUp sdk email password = Inr response \<and> \<not> nullish response
        \<and> truthy (field response ''error'')
        \<and> field (field response ''error'') ''message'' = JStr raw
      \<longrightarrow> signup sdk email password = Inr (failure (formatErrorMessage raw))"
    using credential_try_error_string [of "signUp sdk email password" response raw]
    by (simp add: signup_def)
  show ?thesis
    by (rule conjI [OF rows conjI [OF none conjI [OF ordered conjI [OF table conjI [OF li su]]]]])
qed

theorem formatErrorMessage_table_witness:
  "formatErrorMessage (lit ''AuthApiError: Invalid login credentials (User not found)'')
     = lit ''Invalid email or password''
   \<and> formatErrorMessage (lit ''User not found. Email not confirmed'')
     = lit ''Please confirm your email before logging in''
   \<and> formatErrorMessage (lit ''AuthApiError: User already registered'')
     = lit ''This email is already registered''
   \<and> formatErrorMessage (lit ''Password should be at least 6 characters.'')
     = lit ''Password must be at least 6 characters''
   \<and> formatErrorMessage (lit ''User not found'') = lit ''No account found with this email''
   \<and> formatErrorMessage (lit ''Failed to fetch'') = lit ''Authentication failed. Please try again''
   \<and> formatErrorMessage (lit ''Database error'') = lit ''Authentication failed. Please try again''
   \<and> formatErrorMessage (lit ''Email not confirmed; User not found'')
     = snd (errorMap ! 1)
   \<and> login (offline\<lparr>signInWithPassword := answering (Inr (JObj
              [(''data'', JObj [(''user'', JNull), (''session'', JNull)]),
               (''error'', JObj [(''message'', JStr (lit ''Invalid login credentials''))])]))\<rparr>)
        (lit ''kieran@example.com'') (lit ''wrong'')
     = Inr (failure (formatErrorMessage (lit ''Invalid login credentials'')))
   \<and> signup (offline\<lparr>signUp := answering (Inr (JObj
              [(''data'', JObj [(''user'', JNull), (''session'', JNull)]),
               (''error'', JObj [(''message'', JStr (lit ''User already registered''))])]))\<rparr>)
        (lit ''kieran@example.com'') (lit ''s3cret!'')
     = Inr (failure (formatErrorMessage (lit ''User already registered'')))"
proof -
  let ?k1 = "lit ''Invalid login credentials''"
  let ?k2 = "lit ''Email not confirmed''"
  let ?k3 = "lit ''User already registered''"
  let ?k4 = "lit ''Password should be at least 6 characters''"
  let ?k5 = "lit ''User not found''"
  let ?r1 = "lit ''AuthApiError: Invalid login credentials (User not found)''"
  let ?r2 = "lit ''User not found. Email not confirmed''"
  let ?r3 = "lit ''AuthApiError: User already registered''"
  let ?r4 = "lit ''Password should be at least 6 characters.''"
  let ?r5 = "lit ''User not found''"
  let ?r6 = "lit ''Failed to fetch''"
  let ?r7 = "lit ''Database error''"
  let ?r8 = "lit ''Email not confirmed; User not found''"
  let ?login_response = "JObj [(''data'', JObj [(''user'', JNull), (''session'', JNull)]),
      (''error'', JObj [(''message'', JStr (lit ''Invalid login credentials''))])]"
  let ?signup_response = "JObj [(''data'', JObj [(''user'', JNull), (''session'', JNull)]),
      (''error'', JObj [(''message'', JStr (lit ''User already registered''))])]"
  let ?sdk1 = "offline\<lparr>signInWithPassword := answering (Inr ?login_response)\<rparr>"
  let ?sdk2 = "offline\<lparr>signUp := answering (Inr ?signup_response)\<rparr>"
  have h1: "js_includes ?r1 ?k1"
    by (simp add: js_includes_def lit_def sublist_code)
  have h2: "\<not> js_includes ?r2 ?k1 \<and> js_includes ?r2 ?k2"
    by (simp add: js_includes_def lit_def sublist_code)
  have h3: "\<not> js_includes ?r3 ?k1 \<and> \<not> js_includes ?r3 ?k2 \<and> js_includes ?r3 ?k3"
    by (simp add: js_includes_def lit_def sublist_code)
  have h4: "\<not> js_includes ?r4 ?k1 \<and> \<not> js_includes ?r4 ?k2 \<and> \<not> js_includes ?r4 ?k3
      \<and> js_includes ?r4 ?k4"
    by (simp add: js_includes_def lit_def sublist_code)
  have h5: "\<not> js_includes ?r5 ?k1 \<and> \<not> js_includes ?r5 ?k2 \<and> \<not> js_includes ?r5 ?k3
      \<and> \<not> js_includes ?r5 ?k4 \<and> js_includes ?r5 ?k5"
    by (simp add: js_includes_def lit_def sublist_code)
  have h6: "\<not> js_includes ?r6 ?k1 \<and> \<not> js_includes ?r6 ?k2 \<and> \<not> js_includes ?r6 ?k3
      \<and> \<not> js_includes ?r6 ?k4 \<and> \<not> js_includes ?r6 ?k5"
    by (simp add: js_includes_def lit_def sublist_code)
  have h7: "\<forall>key\<in>set (map fst errorMap). \<not> js_includes ?r7 key"
    by (simp add: errorMap_def js_includes_def lit_def sublist_code)
  have h8: "js_includes ?r8 (fst (errorMap ! 1)) \<and> (\<forall>j<1. \<not> js_includes ?r8 (fst (errorMap ! j)))"
    by (simp add: errorMap_def js_includes_def lit_def sublist_code)
  have len: "1 < length errorMap" by (simp add: errorMap_def)
  have h9: "signInWithPassword ?sdk1 (lit ''kieran@example.com'') (lit ''wrong'')
        = Inr ?login_response \<and> \<not> nullish ?login_response
      \<and> truthy (field ?login_response ''error'')
      \<and> field (field ?login_response ''error'') ''message'' = JStr ?k1"
    by (simp add: answering_def)
  have h10: "signUp ?sdk2 (lit ''kieran@example.com'') (lit ''s3cret!'')
        = Inr ?signup_response \<and> \<not> nullish ?signup_response
      \<and> truthy (field ?signup_response ''error'')
      \<and> field (field ?signup_response ''error'') ''message'' = JStr ?k3"
    by (simp add: answering_def)
  from formatErrorMessage_table [where raw = ?r1, THEN conjunct1, THEN conjunct1] h1
  have a1: "formatErrorMessage ?r1 = lit ''Invalid email or password''" by (rule mp)
  from formatErrorMessage_table
    [where raw = ?r2, THEN conjunct1, THEN conjunct2, THEN conjunct1] h2
  have a2: "formatErrorMessage ?r2 = lit ''Please confirm your email before logging in''"
    by (rule mp)
  from formatErrorMessage_table
    [where raw = ?r3, THEN conjunct1, THEN conjunct2, THEN conjunct2, THEN conjunct1] h3
  have a3: "formatErrorMessage ?r3 = lit ''This email is already registered''" by (rule mp)
  from formatErrorMessage_table
    [where raw = ?r4, THEN conjunct1, THEN conjunct2, THEN conjunct2, THEN conjunct2,
     THEN conjunct1] h4
  have a4: "formatErrorMessage ?r4 = lit ''Password must be at least 6 characters''"
    by (rule mp)
  from formatErrorMessage_table
    [where raw = ?r5, THEN conjunct1, THEN conjunct2, THEN conjunct2, THEN conjunct2,
     THEN conjunct2, THEN conjunct1] h5
  have a5: "formatErrorMessage ?r5 = lit ''No account found with this email''" by (rule mp)
  from formatErrorMessage_table
    [where raw = ?r6, THEN conjunct1, THEN conjunct2, THEN conjunct2, THEN conjunct2,
     THEN conjunct2, THEN conjunct2] h6
  have a6: "formatErrorMessage ?r6 = lit ''Authentication failed. Please try again''"
    by (rule mp)
  from formatErrorMessage_table [where raw = ?r7, THEN conjunct2, THEN conjunct1] h7
  have a7: "formatErrorMessage ?r7 = lit ''Authentication failed. Please try again''"
    by (rule mp)
  from formatErrorMessage_table
    [where raw = ?r8, THEN conjunct2, THEN conjunct2, THEN conjunct1, rule_format, of 1] len h8
  have a8: "formatErrorMessage ?r8 = snd (errorMap ! 1)" by simp
  from formatErrorMessage_table
    [where raw = ?k1 and sdk = ?sdk1 and email = "lit ''kieran@example.com''"
       and password = "lit ''wrong''" and response = ?login_response,
     THEN conjunct2, THEN conjunct2, THEN conjunct2, THEN conjunct2, THEN conjunct1] h9
  have a9: "login ?sdk1 (lit ''kieran@example.com'') (lit ''wrong'')
      = Inr (failure (formatErrorMessage ?k1))" by (rule mp)
  from formatErrorMessage_table
    [where raw = ?k3 and sdk = ?sdk2 and email = "lit ''kieran@example.com''"
       and password = "lit ''s3cret!''" and response = ?signup_response,
     THEN conjunct2, THEN conjunct2, THEN conjunct2, THEN conjunct2, THEN conjunct2] h10
  have a10: "signup ?sdk2 (lit ''kieran@example.com'') (lit ''s3cret!'')
      = Inr (failure (formatErrorMessage ?k3))" by (rule mp)
  from a1 a2 a3 a4 a5 a6 a7 a8 a9 a10 show ?thesis by (intro conjI)
qed

section \<open>Results of the auth operations\<close>

lemma auth_messages_nonempty: "m \<in> set auth_messages \<Longrightarrow> m \<noteq> []"
  by (auto simp: auth_messages_def errorMap_def lit_def)

lemma formatErrorMessage_message: "formatErrorMessage raw \<in> set auth_messages"
proof (cases "first_match (js_includes raw) errorMap")
  case None
  then show ?thesis by (simp add: formatErrorMessage_def auth_messages_def)
next
  case (Some m)
  from first_match_message [OF this] show ?thesis
    using Some by (simp add: formatErrorMessage_def auth_messages_def)
qed

lemma formatErrorMessage_any_message:
  assumes "formatErrorMessage_any v = Inr m"
  shows "m \<in> set auth_messages"
proof (cases v)
  case (JStr raw)
  with assms formatErrorMessage_message [of raw] show ?thesis by simp
next
  case (JArr xs)
  show ?thesis
  proof (cases "first_match (\<lambda>key. JStr key \<in> set xs) errorMap")
    case None
    with assms JArr show ?thesis by (auto simp: auth_messages_def)
  next
    case (Some m')
    from first_match_message [OF this] show ?thesis
      using assms JArr Some by (auto simp: auth_messages_def)
  qed
qed (use assms in simp_all)

lemma exclusive_failure: "m \<in> set auth_messages \<Longrightarrow> exclusive (failure m)"
  by (simp add: exclusive_def failure_def auth_messages_nonempty)

lemma credential_try_exclusive:
  assumes "credential_try outcome = Inr r"
  shows "exclusive r"
proof (cases outcome)
  case (Inl e)
  with assms show ?thesis by (simp add: credential_try_def)
next
  case (Inr response)
  show ?thesis
  proof (cases "truthy (field response ''error'')")
    case True
    with assms Inr obtain m where
      "formatErrorMessage_any (field (field response ''error'') ''message'') = Inr m" "r = failure m"
      by (auto simp: credential_try_def Let_def split: if_splits sum.splits)
    then show ?thesis using formatErrorMessage_any_message exclusive_failure by blast
  next
    case False
    with assms Inr show ?thesis
      by (auto simp: credential_try_def Let_def exclusive_def split: if_splits)
  qed
qed

lemma logout_try_exclusive:
  assumes "logout_try outcome = Inr r"
  shows "exclusive r"
  using assms
  by (auto simp: logout_try_def exclusive_def failure_def auth_messages_def lit_def
      split: sum.splits if_splits)

lemma unexpected_messages:
  "lit ''An unexpected error occurred during login'' \<in> set auth_messages"
  "lit ''An unexpected error occurred during signup'' \<in> set auth_messages"
  "lit ''An unexpected error occurred during logout'' \<in> set auth_messages"
  by (simp_all add: auth_messages_def)

text \<open>
  C9. Whatever the provider call does (resolves to any value, reports an error, throws or
  rejects), \<open>login\<close>, \<open>signup\<close> and \<open>logout\<close> return a result and do not throw, and the result
  is either a success without \<open>error\<close> or a failure carrying one of the fixed messages and
  no \<open>user\<close> or \<open>session\<close>.
\<close>

theorem auth_operations_exclusive:
  "(\<exists>r. login sdk email password = Inr r \<and> exclusive r)
   \<and> (\<exists>r. signup sdk email password = Inr r \<and> exclusive r)
   \<and> (\<exists>r. logout sdk = Inr r \<and> exclusive r)"
proof (intro conjI)
  show "\<exists>r. login sdk email password = Inr r \<and> exclusive r"
    using credential_try_exclusive exclusive_failure [OF unexpected_messages(1)]
    by (cases "credential_try (signInWithPassword sdk email password)") (auto simp: login_def)
  show "\<exists>r. signup sdk email password = Inr r \<and> exclusive r"
    using credential_try_exclusive exclusive_failure [OF unexpected_messages(2)]
    by (cases "credential_try (signUp sdk email password)") (auto simp: signup_def)
  show "\<exists>r. logout sdk = Inr r \<and> exclusive r"
    using logout_try_exclusive exclusive_failure [OF unexpected_messages(3)]
    by (cases "logout_try (signOut sdk)") (auto simp: logout_def)
qed

theorem auth_operations_exclusive_witness:
  "login offline (lit ''kieran@example.com'') (lit ''s3cret!'')
     = Inr (failure (lit ''An unexpected error occurred during login''))
   \<and> exclusive (failure (lit ''An unexpected error occurred during login''))
   \<and> logout (offline\<lparr>signOut := Inr (JObj [(''error'', JNull)])\<rparr>)
     = Inr \<lparr>success = True, error = None, user = None, session = None\<rparr>
   \<and> exclusive \<lparr>success = True, error = None, user = None, session = None\<rparr>"
proof -
  have a: "login offline (lit ''kieran@example.com'') (lit ''s3cret!'')
     = Inr (failure (lit ''An unexpected error occurred during login''))"
    by (simp add: login_def credential_try_def offline_def answering_def)
  have b: "logout (offline\<lparr>signOut := Inr (JObj [(''error'', JNull)])\<rparr>)
     = Inr \<lparr>success = True, error = None, user = None, session = None\<rparr>"
    by (simp add: logout_def logout_try_def)
  from auth_operations_exclusive [of offline "lit ''kieran@example.com''" "lit ''s3cret!''"] a
  have c: "exclusive (failure (lit ''An unexpected error occurred during login''))" by auto
  from auth_operations_exclusive
    [of "offline\<lparr>signOut := Inr (JObj [(''error'', JNull)])\<rparr>" "[]" "[]"] b
  have d: "exclusive \<lparr>success = True, error = None, user = None, session = None\<rparr>" by auto
  from a b c d show ?thesis by blast
qed

lemma session_or_null_cases: "session_or_null v \<Longrightarrow> v = JNull \<or> (\<exists>fs. v = JObj fs)"
  by (cases v) auto

lemma provider_response_shape:
  assumes "provider_response what response"
  shows "\<not> nullish response \<and> \<not> nullish (field response ''data'')
    \<and> session_or_null (field (field response ''data'') what)"
  using assms by (auto simp: provider_response_def split: jsval.splits)

lemma or_else_session_or_null: "session_or_null v \<Longrightarrow> or_else v JNull = v"
  by (cases v) (auto simp: or_else_def)

text \<open>
  C4. \<open>getSession\<close> and \<open>getUser\<close> never raise: whatever the provider call does (resolves to
  any value at all, reports a structured error, throws or rejects) each returns a value, and
  that value is null or what the provider has under \<open>data.session\<close> (resp. \<open>data.user\<close>); the
  \<open>error\<close> of the response plays no part. A call that throws or rejects, and a response that
  is null or undefined or has no \<open>data\<close>, give null. On every response of the provider's shape
  the result is the session (resp. user) that the provider reports, or null when it reports
  none.
\<close>

theorem getSession_getUser_never_raise:
  "(\<exists>v. getSession sdk = Inr v
        \<and> (v = JNull \<or> (\<exists>response. auth_getSession sdk = Inr response
                            \<and> v = field (field response ''data'') ''session'')))
   \<and> (\<exists>v. getUser sdk = Inr v
        \<and> (v = JNull \<or> (\<exists>response. auth_getUser sdk = Inr response
                            \<and> v = field (field response ''data'') ''user'' \<and> truthy v)))
   \<and> ((\<exists>e. auth_getSession sdk = Inl e) \<longrightarrow> getSession sdk = Inr JNull)
   \<and> ((\<exists>e. auth_getUser sdk = Inl e) \<longrightarrow> getUser sdk = Inr JNull)
   \<and> (\<forall>response. auth_getSession sdk = Inr response
          \<and> (nullish response \<or> nullish (field response ''data''))
        \<longrightarrow> getSession sdk = Inr JNull)
   \<and> (\<forall>response. auth_getUser sdk = Inr response
          \<and> (nullish response \<or> nullish (field response ''data'')
              \<or> \<not> truthy (field (field response ''data'') ''user''))
        \<longrightarrow> getUser sdk = Inr JNull)
   \<and> (\<forall>response. auth_getSession sdk = Inr response \<and> provider_response ''session'' response
        \<longrightarrow> getSession sdk = Inr (field (field response ''data'') ''session'')
            \<and> (field (field response ''data'') ''session'' = JNull
                \<or> (\<exists>fs. field (field response ''data'') ''session'' = JObj fs)))
   \<and> (\<forall>response. auth_getUser sdk = Inr response \<and> provider_response ''user'' response
        \<longrightarrow> getUser sdk = Inr (field (field response ''data'') ''user'')
            \<and> (field (field response ''data'') ''user'' = JNull
                \<or> (\<exists>fs. field (field response ''data'') ''user'' = JObj fs)))"
proof -
  have general:
   "(\<exists>v. getSession sdk = Inr v
        \<and> (v = JNull \<or> (\<exists>response. auth_getSession sdk = Inr response
                            \<and> v = field (field response ''data'') ''session'')))
   \<and> (\<exists>v. getUser sdk = Inr v
        \<and> (v = JNull \<or> (\<exists>response. auth_getUser sdk = Inr response
                            \<and> v = field (field response ''data'') ''user'' \<and> truthy v)))
   \<and> ((\<exists>e. auth_getSession sdk = Inl e) \<longrightarrow> getSession sdk = Inr JNull)
   \<and> ((\<exists>e. auth_getUser sdk = Inl e) \<longrightarrow> getUser sdk = Inr JNull)
   \<and> (\<forall>response. auth_getSession sdk = Inr response
          \<and> (nullish response \<or> nullish (field response ''data''))
        \<longrightarrow> getSession sdk = Inr JNull)
   \<and> (\<forall>response. auth_getUser sdk = Inr response
          \<and> (nullish response \<or> nullish (field response ''data'')
              \<or> \<not> truthy (field (field response ''data'') ''user''))
        \<longrightarrow> getUser sdk = Inr JNull)"
    by (auto simp: getSession_def getSession_try_def getUser_def getUser_try_def get_prop_def
        or_else_def split: sum.splits if_splits)
  have sess: "getSession sdk = Inr (field (field response ''data'') ''session'')
            \<and> (field (field response ''data'') ''session'' = JNull
                \<or> (\<exists>fs. field (field response ''data'') ''session'' = JObj fs))"
    if "auth_getSession sdk = Inr response" "provider_response ''session'' response"
    for response
    using that(1) provider_response_shape [OF that(2)] session_or_null_cases
    by (simp add: getSession_def getSession_try_def get_prop_def)
  have usr: "getUser sdk = Inr (field (field response ''data'') ''user'')
            \<and> (field (field response ''data'') ''user'' = JNull
                \<or> (\<exists>fs. field (field response ''data'') ''user'' = JObj fs))"
    if "auth_getUser sdk = Inr response" "provider_response ''user'' response"
    for response
    using that(1) provider_response_shape [OF that(2)] session_or_null_cases
      or_else_session_or_null
    by (simp add: getUser_def getUser_try_def get_prop_def)
  from general sess usr show ?thesis by simp
qed

theorem getSession_getUser_never_raise_witness:
  "getSession offline = Inr JNull
   \<and> getUser offline = Inr JNull
   \<and> getUser (offline\<lparr>auth_getUser := Inr (JObj
        [(''data'', JObj [(''user'', JNull)]),
         (''error'', JObj [(''message'', JStr (lit ''Auth session missing!''))])])\<rparr>) = Inr JNull
   \<and> getSession (offline\<lparr>auth_getSession := Inr JNull\<rparr>) = Inr JNull
   \<and> getSession (offline\<lparr>auth_getSession := Inr (JObj
        [(''data'', JObj [(''session'', JObj [(''access_token'', JStr (lit ''t0k3n''))])]),
         (''error'', JNull)])\<rparr>) = Inr (JObj [(''access_token'', JStr (lit ''t0k3n''))])
   \<and> getUser (offline\<lparr>auth_getUser := Inr (JObj
        [(''data'', JObj [(''user'', JObj [(''id'', JStr (lit ''u1''))])]),
         (''error'', JNull)])\<rparr>) = Inr (JObj [(''id'', JStr (lit ''u1''))])"
proof -
  let ?u = "JObj [(''data'', JObj [(''user'', JNull)]),
         (''error'', JObj [(''message'', JStr (lit ''Auth session missing!''))])]"
  let ?v = "JObj [(''data'', JObj [(''session'', JObj [(''access_token'', JStr (lit ''t0k3n''))])]),
         (''error'', JNull)]"
  let ?w = "JObj [(''data'', JObj [(''user'', JObj [(''id'', JStr (lit ''u1''))])]),
         (''error'', JNull)]"
  have h1: "\<exists>e. auth_getSession offline = Inl e" by (simp add: offline_def)
  have h2: "\<exists>e. auth_getUser offline = Inl e" by (simp add: offline_def)
  have h3: "auth_getUser (offline\<lparr>auth_getUser := Inr ?u\<rparr>) = Inr ?u
      \<and> (nullish ?u \<or> nullish (field ?u ''data'')
          \<or> \<not> truthy (field (field ?u ''data'') ''user''))"
    by simp
  have h4: "auth_getSession (offline\<lparr>auth_getSession := Inr JNull\<rparr>) = Inr JNull
      \<and> (nullish JNull \<or> nullish (field JNull ''data''))"
    by simp
  have h5: "auth_getSession (offline\<lparr>auth_getSession := Inr ?v\<rparr>) = Inr ?v
      \<and> provider_response ''session'' ?v"
    by (simp add: provider_response_def)
  have h6: "auth_getUser (offline\<lparr>auth_getUser := Inr ?w\<rparr>) = Inr ?w
      \<and> provider_response ''user'' ?w"
    by (simp add: provider_response_def)
  note T = getSession_getUser_never_raise
  from T [of offline, THEN conjunct2, THEN conjunct2, THEN conjunct1] h1
  have a: "getSession offline = Inr JNull" by (rule mp)
  from T [of offline, THEN conjunct2, THEN conjunct2, THEN conjunct2, THEN conjunct1] h2
  have b: "getUser offline = Inr JNull" by (rule mp)
  from T [of "offline\<lparr>auth_getUser := Inr ?u\<rparr>", THEN conjunct2, THEN conjunct2,
          THEN conjunct2, THEN conjunct2, THEN conjunct2, THEN conjunct1, rule_format, of ?u] h3
  have c: "getUser (offline\<lparr>auth_getUser := Inr ?u\<rparr>) = Inr JNull" .
  from T [of "offline\<lparr>auth_getSession := Inr JNull\<rparr>", THEN conjunct2, THEN conjunct2,
          THEN conjunct2, THEN conjunct2, THEN conjunct1, rule_format, of JNull] h4
  have d: "getSession (offline\<lparr>auth_getSession := Inr JNull\<rparr>) = Inr JNull" .
  from T [of "offline\<lparr>auth_getSession := Inr ?v\<rparr>", THEN conjunct2, THEN conjunct2,
          THEN conjunct2, THEN conjunct2, THEN conjunct2, THEN conjunct2, THEN conjunct1,
          rule_format, of ?v] h5
  have e: "getSession (offline\<lparr>auth_getSession := Inr ?v\<rparr>)
      = Inr (JObj [(''access_token'', JStr (lit ''t0k3n''))])" by simp
  from T [of "offline\<lparr>auth_getUser := Inr ?w\<rparr>", THEN conjunct2, THEN conjunct2,
          THEN conjunct2, THEN conjunct2, THEN conjunct2, THEN conjunct2, THEN conjunct2,
          rule_format, of ?w] h6
  have f: "getUser (offline\<lparr>auth_getUser := Inr ?w\<rparr>)
      = Inr (JObj [(''id'', JStr (lit ''u1''))])" by simp
  from a b c d e f show ?thesis by (intro conjI)
qed

text \<open>
  A response whose \<open>data\<close> has no \<open>session\<close> at all is not of the provider's shape; \<open>getSession\<close>
  hands its \<open>data.session\<close> on as it is, where \<open>getUser\<close> has \<open>|| null\<close>.
\<close>

lemma getSession_without_session_field:
  "getSession (offline\<lparr>auth_getSession := Inr (JObj [(''data'', JObj []), (''error'', JNull)])\<rparr>)
     = Inr JUndefined
   \<and> getUser (offline\<lparr>auth_getUser := Inr (JObj [(''data'', JObj []), (''error'', JNull)])\<rparr>)
     = Inr JNull"
  by (simp add: getSession_def getSession_try_def getUser_def getUser_try_def get_prop_def
      or_else_def)

text \<open>
  C8. With both configuration values non-empty strings the module's own check passes and
  construction is handed to the SDK: the exported client is what \<open>createClient\<close> returns for
  the two values, a failure of \<open>createClient\<close> is the module's failure, and without the SDK's
  global the module fails with a TypeError. With either value missing or empty the module
  throws its configuration error before it reaches the SDK and exports no client, whatever
  the other value and the SDK are.
\<close>

theorem supabaseClient_configuration:
  "(u \<noteq> [] \<and> k \<noteq> [] \<longrightarrow>
      supabaseClient (Some createClient) (JStr u) (JStr k) = createClient (JStr u) (JStr k))
   \<and> (u \<noteq> [] \<and> k \<noteq> [] \<and> createClient (JStr u) (JStr k) = Inr client \<longrightarrow>
      supabaseClient (Some createClient) (JStr u) (JStr k) = Inr client)
   \<and> (u \<noteq> [] \<and> k \<noteq> [] \<and> createClient (JStr u) (JStr k) = Inl e \<longrightarrow>
      supabaseClient (Some createClient) (JStr u) (JStr k) = Inl e)
   \<and> (u \<noteq> [] \<and> k \<noteq> [] \<and> window_supabase = None \<longrightarrow>
      supabaseClient window_supabase (JStr u) (JStr k) = Inl TypeError)
   \<and> (supabaseUrl \<in> {JUndefined, JNull, JStr []} \<or> supabaseKey \<in> {JUndefined, JNull, JStr []} \<longrightarrow>
      supabaseClient window_supabase supabaseUrl supabaseKey
        = Inl (Error (lit ''Missing Supabase environment variables'')))"
proof -
  have passes: "supabaseClient (Some createClient) (JStr u) (JStr k) = createClient (JStr u) (JStr k)"
    if "u \<noteq> []" "k \<noteq> []"
    using that by (simp add: supabaseClient_def)
  have absent: "supabaseClient window_supabase (JStr u) (JStr k) = Inl TypeError"
    if "u \<noteq> []" "k \<noteq> []" "window_supabase = None"
    using that by (simp add: supabaseClient_def)
  have falsy: "\<not> truthy v" if "v \<in> {JUndefined, JNull, JStr []}" for v
    using that by auto
  have fails: "supabaseClient window_supabase supabaseUrl supabaseKey
        = Inl (Error (lit ''Missing Supabase environment variables''))"
    if "supabaseUrl \<in> {JUndefined, JNull, JStr []} \<or> supabaseKey \<in> {JUndefined, JNull, JStr []}"
    using that falsy [of supabaseUrl] falsy [of supabaseKey]
    by (auto simp: supabaseClient_def)
  from passes absent fails show ?thesis by simp
qed

theorem supabaseClient_configuration_witness:
  "supabaseClient (Some (answering (Inr ())))
        (JStr (lit ''https://lovedarts.supabase.co'')) (JStr (lit ''anon-key'')) = Inr ()
   \<and> supabaseClient (Some (answering (Inl TypeError)))
        (JStr (lit ''https://lovedarts.supabase.co'')) (JStr (lit ''anon-key''))
      = (Inl TypeError :: unit result)
   \<and> supabaseClient None
        (JStr (lit ''https://lovedarts.supabase.co'')) (JStr (lit ''anon-key''))
      = (Inl TypeError :: unit result)
   \<and> supabaseClient (Some (answering (Inr ())))
        (JStr (lit ''https://lovedarts.supabase.co'')) JUndefined
      = Inl (Error (lit ''Missing Supabase environment variables''))
   \<and> supabaseClient (Some (answering (Inr ())))
        (JStr []) (JStr (lit ''anon-key''))
      = Inl (Error (lit ''Missing Supabase environment variables''))"
proof -
  let ?url = "lit ''https://lovedarts.supabase.co''"
  let ?key = "lit ''anon-key''"
  let ?sdk = "answering (Inr ()) :: jsval \<Rightarrow> jsval \<Rightarrow> unit result"
  let ?bad = "answering (Inl TypeError) :: jsval \<Rightarrow> jsval \<Rightarrow> unit result"
  let ?none = "None :: (jsval \<Rightarrow> jsval \<Rightarrow> unit result) option"
  have n: "?url \<noteq> []" "?key \<noteq> []" by (simp_all add: lit_def)
  have h: "?url \<noteq> [] \<and> ?key \<noteq> [] \<and> ?sdk (JStr ?url) (JStr ?key) = Inr ()"
    using n by (simp add: answering_def)
  have h': "?url \<noteq> [] \<and> ?key \<noteq> [] \<and> ?bad (JStr ?url) (JStr ?key) = Inl TypeError"
    using n by (simp add: answering_def)
  have h'': "?url \<noteq> [] \<and> ?key \<noteq> [] \<and> ?none = None"
    using n by simp
  have m1: "JStr ?url \<in> {JUndefined, JNull, JStr []} \<or> JUndefined \<in> {JUndefined, JNull, JStr []}"
    by simp
  have m2: "JStr [] \<in> {JUndefined, JNull, JStr []} \<or> JStr ?key \<in> {JUndefined, JNull, JStr []}"
    by simp
  from supabaseClient_configuration
      [where u = ?url and k = ?key and createClient = ?sdk and client = "()",
       THEN conjunct2, THEN conjunct1] h
  have a: "supabaseClient (Some ?sdk) (JStr ?url) (JStr ?key) = Inr ()"
    by (rule mp)
  from supabaseClient_configuration
      [where u = ?url and k = ?key and createClient = ?bad and e = TypeError,
       THEN conjunct2, THEN conjunct2, THEN conjunct1] h'
  have a': "supabaseClient (Some ?bad) (JStr ?url) (JStr ?key) = Inl TypeError"
    by (rule mp)
  from supabaseClient_configuration
      [where u = ?url and k = ?key and window_supabase = ?none,
       THEN conjunct2, THEN conjunct2, THEN conjunct2, THEN conjunct1] h''
  have a'': "supabaseClient ?none (JStr ?url) (JStr ?key) = Inl TypeError"
    by (rule mp)
  from supabaseClient_configuration
      [where supabaseUrl = "JStr ?url" and supabaseKey = JUndefined
         and window_supabase = "Some ?sdk",
       THEN conjunct2, THEN conjunct2, THEN conjunct2, THEN conjunct2] m1
  have b: "supabaseClient (Some ?sdk) (JStr ?url) JUndefined
      = Inl (Error (lit ''Missing Supabase environment variables''))"
    by (rule mp)
  from supabaseClient_configuration
      [where supabaseUrl = "JStr []" and supabaseKey = "JStr ?key"
         and window_supabase = "Some ?sdk",
       THEN conjunct2, THEN conjunct2, THEN conjunct2, THEN conjunct2] m2
  have c: "supabaseClient (Some ?sdk) (JStr []) (JStr ?key)
      = Inl (Error (lit ''Missing Supabase environment variables''))"
    by (rule mp)
  from a a' a'' b c show ?thesis by (intro conjI)
qed

text \<open>
  Both values non-empty, and no client: the SDK's global is absent, or its \<open>createClient\<close>
  refuses the URL.
\<close>

theorem supabaseClient_nonempty_counterexample:
  "lit ''https://lovedarts.supabase.co'' \<noteq> [] \<and> lit ''lovedarts'' \<noteq> [] \<and> lit ''anon-key'' \<noteq> []
   \<and> supabaseClient None
        (JStr (lit ''https://lovedarts.supabase.co'')) (JStr (lit ''anon-key''))
      = (Inl TypeError :: unit result)
   \<and> supabaseClient (Some (answering (Inl (Error (lit ''Invalid supabaseUrl'')))))
        (JStr (lit ''lovedarts'')) (JStr (lit ''anon-key''))
      = (Inl (Error (lit ''Invalid supabaseUrl'')) :: unit result)"
  by (simp add: supabaseClient_def answering_def lit_def)

section \<open>The listener registry\<close>

lemma allocated_new: "allocated new_AuthService"
  by (simp add: allocated_def new_AuthService_def)

lemma onAuthStateChange_frame:
  assumes "allocated s" "r < next_ref s"
  shows "allocated (onAuthStateChange c s)" "r < next_ref (onAuthStateChange c s)"
    "prefix (heap s r) (heap (onAuthStateChange c s) r)"
    "invoked (onAuthStateChange c s) = invoked s"
    "console_error (onAuthStateChange c s) = console_error s"
  using assms by (auto simp: allocated_def onAuthStateChange_def)

lemma unsubscribe_frame:
  assumes "allocated s" "r < next_ref s"
  shows "allocated (unsubscribe c s)" "r < next_ref (unsubscribe c s)"
    "heap (unsubscribe c s) r = heap s r"
    "invoked (unsubscribe c s) = invoked s"
    "console_error (unsubscribe c s) = console_error s"
  using assms by (auto simp: allocated_def unsubscribe_def)

lemma listeners_onAuthStateChange: "listeners (onAuthStateChange c s) = listeners s @ [c]"
  by (simp add: listeners_def onAuthStateChange_def)

lemma listeners_unsubscribe:
  "listeners (unsubscribe c s) = filter (\<lambda>listener. listener \<noteq> c) (listeners s)"
  by (simp add: listeners_def unsubscribe_def)

lemma run_actions_frame:
  "allocated s \<Longrightarrow> r < next_ref s \<Longrightarrow> run_actions as s = (thrown, s') \<Longrightarrow>
     allocated s' \<and> r < next_ref s' \<and> prefix (heap s r) (heap s' r)
     \<and> invoked s' = invoked s \<and> console_error s' = console_error s"
proof (induction as s rule: run_actions.induct)
  case (1 s)
  then show ?case by simp
next
  case (2 c as s)
  have "prefix (heap s r) (heap (onAuthStateChange c s) r)"
    using 2 onAuthStateChange_frame by blast
  moreover have "allocated s' \<and> r < next_ref s' \<and> prefix (heap (onAuthStateChange c s) r) (heap s' r)
     \<and> invoked s' = invoked (onAuthStateChange c s) \<and> console_error s' = console_error (onAuthStateChange c s)"
    using 2 onAuthStateChange_frame by simp
  ultimately show ?case using 2(2,3) onAuthStateChange_frame(4,5) [of s r c]
    by (auto intro: prefix_order.trans)
next
  case (3 c as s)
  have "allocated s' \<and> r < next_ref s' \<and> prefix (heap (unsubscribe c s) r) (heap s' r)
     \<and> invoked s' = invoked (unsubscribe c s) \<and> console_error s' = console_error (unsubscribe c s)"
    using 3 unsubscribe_frame by simp
  then show ?case using 3(2,3) unsubscribe_frame(3,4,5) [of s r c] by simp
next
  case (4 e as s)
  then show ?case by simp
qed

lemma call_callback_frame:
  assumes "allocated s" "r < next_ref s" "call_callback beh c u s = (thrown, s')"
  shows "allocated s' \<and> r < next_ref s' \<and> prefix (heap s r) (heap s' r)
     \<and> invoked s' = invoked s @ [(c, u)] \<and> console_error s' = console_error s"
proof -
  let ?s1 = "s\<lparr>invoked := invoked s @ [(c, u)]\<rparr>"
  have a: "allocated ?s1" "r < next_ref ?s1" using assms by (simp_all add: allocated_def)
  have "run_actions (beh c u ?s1) ?s1 = (thrown, s')"
    using assms(3) by (simp add: call_callback_def Let_def)
  from run_actions_frame [OF a this] show ?thesis by simp
qed

lemma forEach_from_frame:
  "allocated s \<Longrightarrow> r < next_ref s \<Longrightarrow> prefix xs (heap s r) \<Longrightarrow> k + n = length xs \<Longrightarrow>
     invoked (forEach_from beh u r n k s) = invoked s @ map (\<lambda>c. (c, u)) (drop k xs)
     \<and> allocated (forEach_from beh u r n k s)
     \<and> r < next_ref (forEach_from beh u r n k s)
     \<and> prefix xs (heap (forEach_from beh u r n k s) r)"
proof (induction n arbitrary: k s)
  case 0
  then show ?case by simp
next
  case (Suc n)
  have klt: "k < length xs" using Suc.prems by simp
  obtain zs where zs: "heap s r = xs @ zs" using Suc.prems(3) by (auto simp: prefix_def)
  have kh: "k < length (heap s r)" using klt zs by simp
  have el: "heap s r ! k = xs ! k" using klt zs by (simp add: nth_append)
  obtain thrown s1 where c: "call_callback beh (xs ! k) u s = (thrown, s1)"
    by (cases "call_callback beh (xs ! k) u s")
  from call_callback_frame [OF Suc.prems(1,2) c]
  have f: "allocated s1" "r < next_ref s1" "prefix (heap s r) (heap s1 r)"
    "invoked s1 = invoked s @ [(xs ! k, u)]" by simp_all
  have p1: "prefix xs (heap s1 r)" using Suc.prems(3) f(3) by (rule prefix_order.trans)
  define s2 where "s2 = (case thrown of None \<Rightarrow> s1
      | Some err \<Rightarrow> s1\<lparr>console_error := console_error s1 @ [err]\<rparr>)"
  have s2: "allocated s2" "r < next_ref s2" "prefix xs (heap s2 r)"
    "invoked s2 = invoked s @ [(xs ! k, u)]"
    using f p1 by (auto simp: s2_def allocated_def split: option.splits)
  have step: "forEach_from beh u r (Suc n) k s = forEach_from beh u r n (Suc k) s2"
    using kh el c by (simp add: s2_def split: option.splits)
  have "Suc k + n = length xs" using Suc.prems by simp
  from Suc.IH [OF s2(1,2,3) this]
  have ih: "invoked (forEach_from beh u r n (Suc k) s2)
              = invoked s2 @ map (\<lambda>c. (c, u)) (drop (Suc k) xs)"
    "allocated (forEach_from beh u r n (Suc k) s2)"
    "r < next_ref (forEach_from beh u r n (Suc k) s2)"
    "prefix xs (heap (forEach_from beh u r n (Suc k) s2) r)" by simp_all
  have "drop k xs = xs ! k # drop (Suc k) xs" using klt by (simp add: Cons_nth_drop_Suc)
  with ih s2(4) step show ?case by simp
qed

lemma notifyListeners_invoked:
  assumes "allocated s"
  shows "invoked (notifyListeners beh u s) = invoked s @ map (\<lambda>c. (c, u)) (listeners s)"
    and "allocated (notifyListeners beh u s)"
proof -
  let ?r = "authStateListeners s"
  have r: "?r < next_ref s" using assms by (simp add: allocated_def)
  have "0 + length (heap s ?r) = length (heap s ?r)" by simp
  from forEach_from_frame [OF assms r prefix_order.refl this, of beh u]
  show "invoked (notifyListeners beh u s) = invoked s @ map (\<lambda>c. (c, u)) (listeners s)"
    and "allocated (notifyListeners beh u s)"
    by (simp_all add: notifyListeners_def listeners_def Let_def)
qed


text \<open>Callbacks that only throw.\<close>

lemma forEach_from_throwing:
  "k + n = length (heap s r) \<Longrightarrow>
     forEach_from (throwing throwers) u r n k s =
       s\<lparr>invoked := invoked s @ map (\<lambda>c. (c, u)) (drop k (heap s r)),
         console_error := console_error s @ List.map_filter throwers (drop k (heap s r))\<rparr>"
proof (induction n arbitrary: k s)
  case 0
  then show ?case by simp
next
  case (Suc n)
  have klt: "k < length (heap s r)" using Suc.prems by simp
  have d: "drop k (heap s r) = heap s r ! k # drop (Suc k) (heap s r)"
    using klt by (simp add: Cons_nth_drop_Suc)
  show ?case
  proof (cases "throwers (heap s r ! k)")
    case None
    let ?s1 = "s\<lparr>invoked := invoked s @ [(heap s r ! k, u)]\<rparr>"
    have c: "call_callback (throwing throwers) (heap s r ! k) u s = (None, ?s1)"
      using None by (simp add: call_callback_def throwing_def Let_def)
    have "Suc k + n = length (heap ?s1 r)" using Suc.prems by simp
    from Suc.IH [OF this] c klt None show ?thesis
      by (simp add: d List.map_filter_simps)
  next
    case (Some e)
    let ?s1 = "s\<lparr>invoked := invoked s @ [(heap s r ! k, u)]\<rparr>"
    let ?s2 = "?s1\<lparr>console_error := console_error ?s1 @ [e]\<rparr>"
    have c: "call_callback (throwing throwers) (heap s r ! k) u s = (Some e, ?s1)"
      using Some by (simp add: call_callback_def throwing_def Let_def)
    have "Suc k + n = length (heap ?s2 r)" using Suc.prems by simp
    from Suc.IH [OF this] c klt Some show ?thesis
      by (simp add: d List.map_filter_simps)
  qed
qed

lemma notifyListeners_throwing:
  "notifyListeners (throwing throwers) u s =
     s\<lparr>invoked := invoked s @ map (\<lambda>c. (c, u)) (listeners s),
       console_error := console_error s @ List.map_filter throwers (listeners s)\<rparr>"
  using forEach_from_throwing [of 0 "length (heap s (authStateListeners s))" s
      "authStateListeners s" throwers u]
  by (simp add: notifyListeners_def listeners_def Let_def)

text \<open>A callback that unsubscribes.\<close>

lemma forEach_from_unsubscribing:
  "allocated s \<Longrightarrow> r < next_ref s \<Longrightarrow> heap s r = xs \<Longrightarrow> k + n = length xs \<Longrightarrow>
   (if d \<in> set (take k xs) then listeners s = filter (\<lambda>l. l \<noteq> t) xs
    else authStateListeners s = r) \<Longrightarrow>
     listeners (forEach_from (unsubscribing d t) u r n k s) =
       (if d \<in> set xs then filter (\<lambda>l. l \<noteq> t) xs else xs)"
proof (induction n arbitrary: k s)
  case 0
  then show ?case by (auto simp: listeners_def)
next
  case (Suc n)
  have klt: "k < length xs" using Suc.prems by simp
  have tk: "take (Suc k) xs = take k xs @ [xs ! k]" using klt by (simp add: take_Suc_conv_app_nth)
  have kh: "k < length (heap s r)" "heap s r ! k = xs ! k" using klt Suc.prems(3) by simp_all
  let ?s0 = "s\<lparr>invoked := invoked s @ [(xs ! k, u)]\<rparr>"
  show ?case
  proof (cases "xs ! k = d")
    case True
    let ?s1 = "unsubscribe t ?s0"
    have c: "call_callback (unsubscribing d t) (xs ! k) u s = (None, ?s1)"
      using True by (simp add: call_callback_def unsubscribing_def Let_def)
    have a0: "allocated ?s0" "r < next_ref ?s0" using Suc.prems by (simp_all add: allocated_def)
    have a1: "allocated ?s1" "r < next_ref ?s1" "heap ?s1 r = xs"
      using unsubscribe_frame [OF a0] Suc.prems(3) by simp_all
    have "listeners ?s0 = xs \<or> listeners ?s0 = filter (\<lambda>l. l \<noteq> t) xs"
      using Suc.prems(3,5) by (auto simp: listeners_def split: if_splits)
    hence l1: "listeners ?s1 = filter (\<lambda>l. l \<noteq> t) xs"
      by (auto simp: listeners_unsubscribe)
    have inv: "if d \<in> set (take (Suc k) xs) then listeners ?s1 = filter (\<lambda>l. l \<noteq> t) xs
      else authStateListeners ?s1 = r" using True tk l1 by simp
    have "Suc k + n = length xs" using Suc.prems by simp
    from Suc.IH [OF a1 this inv] show ?thesis using kh c by simp
  next
    case False
    have c: "call_callback (unsubscribing d t) (xs ! k) u s = (None, ?s0)"
      using False by (simp add: call_callback_def unsubscribing_def Let_def)
    have a0: "allocated ?s0" "r < next_ref ?s0" "heap ?s0 r = xs"
      using Suc.prems by (simp_all add: allocated_def)
    have inv: "if d \<in> set (take (Suc k) xs) then listeners ?s0 = filter (\<lambda>l. l \<noteq> t) xs
      else authStateListeners ?s0 = r"
      using False tk Suc.prems(5) by (auto simp: listeners_def split: if_splits)
    have "Suc k + n = length xs" using Suc.prems by simp
    from Suc.IH [OF a0 this inv] show ?thesis using kh c by simp
  qed
qed

lemma notifyListeners_unsubscribing:
  assumes "allocated s"
  shows "listeners (notifyListeners (unsubscribing d t) u s) =
     (if d \<in> set (listeners s) then filter (\<lambda>l. l \<noteq> t) (listeners s) else listeners s)"
proof -
  let ?r = "authStateListeners s"
  have r: "?r < next_ref s" using assms by (simp add: allocated_def)
  have "0 + length (heap s ?r) = length (heap s ?r)" by simp
  from forEach_from_unsubscribing [OF assms r refl this, of d t u]
  show ?thesis by (simp add: notifyListeners_def listeners_def Let_def)
qed

lemma session_user_cases:
  "session_user sess = (if truthy (opt_chain sess ''user'') then opt_chain sess ''user'' else JNull)"
  by (simp add: session_user_def or_else_def)

lemma session_user_nullish_agree:
  assumes "nullish (opt_chain sess ''user'') \<or> truthy (opt_chain sess ''user'')"
  shows "session_user sess = session_user_nullish sess"
  using assms
  by (cases "opt_chain sess ''user''")
    (auto simp: session_user_def session_user_nullish_def or_else_def nullish_coalesce_def)

lemma provider_session_user:
  assumes "provider_session sess"
  shows "nullish (opt_chain sess ''user'') \<or> truthy (opt_chain sess ''user'')"
proof -
  have "record_or_none v \<Longrightarrow> nullish v \<or> truthy v" for v
    by (cases v) auto
  with assms show ?thesis by (simp add: provider_session_def)
qed

text \<open>
  C3. For every event of the provider's stream the handler computes
  \<open>user = session?.user ?? null\<close> (the source writes \<open>||\<close>, which gives the same value on every
  session the provider emits) and calls every listener registered at that moment once, in
  registration order, with that one value, whatever the listeners do; a listener that throws
  is logged and the listeners after it are called all the same.
\<close>

theorem authStateChanged_fan_out:
  "(allocated s \<and> provider_session sess \<longrightarrow>
      invoked (authStateChanged beh event sess s)
        = invoked s @ map (\<lambda>callback. (callback, session_user_nullish sess)) (listeners s))
   \<and> (provider_session sess \<longrightarrow>
      invoked (authStateChanged (throwing throwers) event sess s)
        = invoked s @ map (\<lambda>callback. (callback, session_user_nullish sess)) (listeners s)
      \<and> console_error (authStateChanged (throwing throwers) event sess s)
        = console_error s @ List.map_filter throwers (listeners s))
   \<and> (provider_session sess \<longrightarrow> session_user sess = session_user_nullish sess)
   \<and> (allocated s \<longrightarrow>
      invoked (authStateChanged beh event sess s)
        = invoked s @ map (\<lambda>callback. (callback, session_user sess)) (listeners s))
   \<and> session_user sess = or_else (opt_chain sess ''user'') JNull"
proof -
  have agree: "session_user sess = session_user_nullish sess" if "provider_session sess"
    using session_user_nullish_agree [OF provider_session_user [OF that]] .
  have fan: "invoked (authStateChanged beh event sess s)
        = invoked s @ map (\<lambda>callback. (callback, session_user sess)) (listeners s)"
    if "allocated s"
    using notifyListeners_invoked(1) [OF that, of beh "session_user sess"]
    by (simp add: authStateChanged_def)
  have thr: "invoked (authStateChanged (throwing throwers) event sess s)
        = invoked s @ map (\<lambda>callback. (callback, session_user sess)) (listeners s)
      \<and> console_error (authStateChanged (throwing throwers) event sess s)
        = console_error s @ List.map_filter throwers (listeners s)"
    by (simp add: authStateChanged_def notifyListeners_throwing)
  have u: "session_user sess = or_else (opt_chain sess ''user'') JNull"
    by (simp add: session_user_def)
  from agree fan thr u show ?thesis by auto
qed

theorem authStateChanged_fan_out_witness:
  "allocated (onAuthStateChange 5 (onAuthStateChange 4 new_AuthService))
   \<and> provider_session (JObj [(''user'', JObj [(''id'', JStr (lit ''u1''))])])
   \<and> provider_session JNull
   \<and> invoked (authStateChanged (throwing [4 \<mapsto> TypeError]) (lit ''SIGNED_IN'')
        (JObj [(''user'', JObj [(''id'', JStr (lit ''u1''))])])
        (onAuthStateChange 5 (onAuthStateChange 4 new_AuthService)))
      = [(4, JObj [(''id'', JStr (lit ''u1''))]), (5, JObj [(''id'', JStr (lit ''u1''))])]
   \<and> console_error (authStateChanged (throwing [4 \<mapsto> TypeError]) (lit ''SIGNED_IN'')
        (JObj [(''user'', JObj [(''id'', JStr (lit ''u1''))])])
        (onAuthStateChange 5 (onAuthStateChange 4 new_AuthService)))
      = [TypeError]
   \<and> invoked (authStateChanged quiet (lit ''SIGNED_OUT'') JNull
        (onAuthStateChange 5 (onAuthStateChange 4 new_AuthService)))
      = [(4, JNull), (5, JNull)]"
proof -
  let ?s = "onAuthStateChange 5 (onAuthStateChange 4 new_AuthService)"
  let ?sess = "JObj [(''user'', JObj [(''id'', JStr (lit ''u1''))])]"
  have h: "allocated ?s"
    by (simp add: allocated_def onAuthStateChange_def new_AuthService_def)
  have p: "provider_session ?sess" "provider_session JNull"
    by (simp_all add: provider_session_def opt_chain_def)
  have l: "listeners ?s = [4, 5]" "invoked ?s = []" "console_error ?s = []"
    by (simp_all add: listeners_def onAuthStateChange_def new_AuthService_def)
  have u: "session_user_nullish ?sess = JObj [(''id'', JStr (lit ''u1''))]"
    "session_user_nullish JNull = JNull"
    by (simp_all add: session_user_nullish_def opt_chain_def nullish_coalesce_def)
  from authStateChanged_fan_out
    [where sess = ?sess and s = ?s and throwers = "[4 \<mapsto> TypeError]"
       and event = "lit ''SIGNED_IN''", THEN conjunct2, THEN conjunct1] p(1)
  have a: "invoked (authStateChanged (throwing [4 \<mapsto> TypeError]) (lit ''SIGNED_IN'') ?sess ?s)
        = invoked ?s @ map (\<lambda>callback. (callback, session_user_nullish ?sess)) (listeners ?s)
      \<and> console_error (authStateChanged (throwing [4 \<mapsto> TypeError]) (lit ''SIGNED_IN'') ?sess ?s)
        = console_error ?s @ List.map_filter [4 \<mapsto> TypeError] (listeners ?s)"
    by (rule mp)
  have hp: "allocated ?s \<and> provider_session JNull" using h p(2) by (rule conjI)
  from authStateChanged_fan_out
    [where sess = JNull and s = ?s and beh = quiet and event = "lit ''SIGNED_OUT''",
     THEN conjunct1] hp
  have b: "invoked (authStateChanged quiet (lit ''SIGNED_OUT'') JNull ?s)
        = invoked ?s @ map (\<lambda>callback. (callback, session_user_nullish JNull)) (listeners ?s)"
    by (rule mp)
  from a have a1: "invoked (authStateChanged (throwing [4 \<mapsto> TypeError]) (lit ''SIGNED_IN'')
        ?sess ?s) = [(4, JObj [(''id'', JStr (lit ''u1''))]), (5, JObj [(''id'', JStr (lit ''u1''))])]"
    by (simp add: l u)
  from a have a2: "console_error (authStateChanged (throwing [4 \<mapsto> TypeError])
        (lit ''SIGNED_IN'') ?sess ?s) = [TypeError]"
    by (simp add: l List.map_filter_simps)
  from b have b1: "invoked (authStateChanged quiet (lit ''SIGNED_OUT'') JNull ?s)
      = [(4, JNull), (5, JNull)]"
    by (simp add: l u)
  from h p a1 a2 b1 show ?thesis by (intro conjI)
qed

text \<open>
  Outside the provider's sessions the two operators part: a user that is the number 0 is
  passed on as null.
\<close>

lemma session_user_falsy_user:
  "invoked (authStateChanged quiet (lit ''SIGNED_IN'') (JObj [(''user'', JNum 0)])
              (onAuthStateChange 7 new_AuthService)) = [(7, JNull)]
   \<and> session_user_nullish (JObj [(''user'', JNum 0)]) = JNum 0"
  by (simp add: authStateChanged_def notifyListeners_def new_AuthService_def
      onAuthStateChange_def call_callback_def quiet_def session_user_def or_else_def
      opt_chain_def session_user_nullish_def nullish_coalesce_def Let_def)

text \<open>
  A callback registered twice and unsubscribed once is not registered any more: the next
  event calls nothing.
\<close>

theorem unsubscribe_once_counterexample:
  "listeners (unsubscribe 7 (onAuthStateChange 7 (onAuthStateChange 7 new_AuthService))) = []
   \<and> invoked (authStateChanged quiet (lit ''SIGNED_IN'')
        (JObj [(''user'', JObj [(''id'', JStr (lit ''u1''))])])
        (unsubscribe 7 (onAuthStateChange 7 (onAuthStateChange 7 new_AuthService)))) = []"
  by (simp add: authStateChanged_def notifyListeners_def new_AuthService_def
      onAuthStateChange_def unsubscribe_def listeners_def Let_def)

text \<open>
  C2. When a callback reference is registered twice, calling the unsubscribe handle of either
  registration removes every registration of that reference (also earlier ones) and leaves
  the other callbacks in their order; the next provider event calls those, each once per
  registration, and does not call the unsubscribed callback at all.
\<close>

theorem unsubscribe_removes_every_registration:
  "listeners (unsubscribe callback (onAuthStateChange callback (onAuthStateChange callback s)))
     = filter (\<lambda>listener. listener \<noteq> callback) (listeners s)
   \<and> (allocated s \<longrightarrow>
       invoked (authStateChanged beh event sess
          (unsubscribe callback (onAuthStateChange callback (onAuthStateChange callback s))))
       = invoked s @ map (\<lambda>c. (c, session_user sess))
                       (filter (\<lambda>listener. listener \<noteq> callback) (listeners s)))
   \<and> (allocated s \<longrightarrow>
       (\<forall>u. (callback, u) \<notin> set (drop (length (invoked s))
          (invoked (authStateChanged beh event sess
             (unsubscribe callback
                (onAuthStateChange callback (onAuthStateChange callback s))))))))"
proof -
  let ?s3 = "unsubscribe callback (onAuthStateChange callback (onAuthStateChange callback s))"
  have l: "listeners ?s3 = filter (\<lambda>listener. listener \<noteq> callback) (listeners s)"
    by (simp add: listeners_unsubscribe listeners_onAuthStateChange)
  have inv: "invoked ?s3 = invoked s"
    by (simp add: unsubscribe_def onAuthStateChange_def)
  have al: "allocated ?s3" if "allocated s"
    using that by (simp add: allocated_def unsubscribe_def onAuthStateChange_def)
  have i: "invoked (authStateChanged beh event sess ?s3)
       = invoked s @ map (\<lambda>c. (c, session_user sess))
                       (filter (\<lambda>listener. listener \<noteq> callback) (listeners s))"
    if "allocated s"
    using notifyListeners_invoked(1) [OF al [OF that], of beh "session_user sess"] l inv
    by (simp add: authStateChanged_def)
  from l i show ?thesis by auto
qed

theorem unsubscribe_removes_every_registration_witness:
  "allocated (onAuthStateChange 3 new_AuthService)
   \<and> listeners (unsubscribe 7 (onAuthStateChange 7 (onAuthStateChange 7
        (onAuthStateChange 3 new_AuthService)))) = [3]
   \<and> invoked (authStateChanged quiet (lit ''SIGNED_OUT'') JNull
        (unsubscribe 7 (onAuthStateChange 7 (onAuthStateChange 7
           (onAuthStateChange 3 new_AuthService))))) = [(3, JNull)]"
proof -
  let ?s = "onAuthStateChange 3 new_AuthService"
  have h: "allocated ?s"
    by (simp add: allocated_def onAuthStateChange_def new_AuthService_def)
  have l: "listeners ?s = [3]" "invoked ?s = []"
    by (simp_all add: listeners_def onAuthStateChange_def new_AuthService_def)
  have u: "session_user JNull = JNull"
    by (simp add: session_user_def opt_chain_def or_else_def)
  from unsubscribe_removes_every_registration
    [where s = ?s and callback = 7 and beh = quiet and event = "lit ''SIGNED_OUT''"
       and sess = JNull] h
  have "listeners (unsubscribe 7 (onAuthStateChange 7 (onAuthStateChange 7 ?s)))
     = filter (\<lambda>listener. listener \<noteq> 7) (listeners ?s)
   \<and> invoked (authStateChanged quiet (lit ''SIGNED_OUT'') JNull
          (unsubscribe 7 (onAuthStateChange 7 (onAuthStateChange 7 ?s))))
       = invoked ?s @ map (\<lambda>c. (c, session_user JNull))
                       (filter (\<lambda>listener. listener \<noteq> 7) (listeners ?s))"
    by blast
  with h show ?thesis by (simp add: l u)
qed

text \<open>
  C10. An unsubscribe handle called while a fan-out is running does not touch that fan-out:
  every listener registered when it began is still called in it, whatever the listeners do.
  \<open>unsubscribe\<close> leaves the array being iterated as it is and points \<open>authStateListeners\<close> to a
  new, filtered array; so when a listener \<open>d\<close> of the list unsubscribes \<open>t\<close> (itself, for
  \<open>t = d\<close>) during the fan-out, the whole list is called in this fan-out and the list without
  \<open>t\<close> in the next one.
\<close>

theorem unsubscribe_during_fan_out:
  "(allocated s \<longrightarrow>
      invoked (notifyListeners beh u s) = invoked s @ map (\<lambda>c. (c, u)) (listeners s))
   \<and> (allocated s \<and> d \<in> set (listeners s) \<longrightarrow>
      invoked (notifyListeners (unsubscribing d t) u s)
        = invoked s @ map (\<lambda>c. (c, u)) (listeners s)
      \<and> listeners (notifyListeners (unsubscribing d t) u s)
        = filter (\<lambda>listener. listener \<noteq> t) (listeners s)
      \<and> invoked (notifyListeners beh u' (notifyListeners (unsubscribing d t) u s))
        = invoked s @ map (\<lambda>c. (c, u)) (listeners s)
            @ map (\<lambda>c. (c, u')) (filter (\<lambda>listener. listener \<noteq> t) (listeners s)))
   \<and> (r \<noteq> next_ref s \<longrightarrow> heap (unsubscribe t s) r = heap s r)
   \<and> authStateListeners (unsubscribe t s) = next_ref s
   \<and> listeners (unsubscribe t s) = filter (\<lambda>listener. listener \<noteq> t) (listeners s)"
proof -
  have a: "invoked (notifyListeners beh u s) = invoked s @ map (\<lambda>c. (c, u)) (listeners s)"
    if "allocated s" for beh
    using notifyListeners_invoked(1) [OF that] .
  have b: "listeners (notifyListeners (unsubscribing d t) u s)
        = filter (\<lambda>listener. listener \<noteq> t) (listeners s)"
    if "allocated s" "d \<in> set (listeners s)"
    using notifyListeners_unsubscribing [OF that(1), of d t u] that(2) by simp
  have c: "invoked (notifyListeners beh u' (notifyListeners (unsubscribing d t) u s))
        = invoked s @ map (\<lambda>c. (c, u)) (listeners s)
            @ map (\<lambda>c. (c, u')) (filter (\<lambda>listener. listener \<noteq> t) (listeners s))"
    if "allocated s" "d \<in> set (listeners s)"
    using notifyListeners_invoked(1) [OF notifyListeners_invoked(2) [OF that(1)], of beh u']
      a [OF that(1)] b [OF that]
    by simp
  have d: "r \<noteq> next_ref s \<longrightarrow> heap (unsubscribe t s) r = heap s r"
    "authStateListeners (unsubscribe t s) = next_ref s"
    by (simp_all add: unsubscribe_def)
  from a b c d listeners_unsubscribe [of t s] show ?thesis by blast
qed

theorem unsubscribe_during_fan_out_witness:
  "allocated (onAuthStateChange 5 (onAuthStateChange 4 new_AuthService))
   \<and> 4 \<in> set (listeners (onAuthStateChange 5 (onAuthStateChange 4 new_AuthService)))
   \<and> invoked (notifyListeners (unsubscribing 4 4) JNull
        (onAuthStateChange 5 (onAuthStateChange 4 new_AuthService)))
      = [(4, JNull), (5, JNull)]
   \<and> listeners (notifyListeners (unsubscribing 4 4) JNull
        (onAuthStateChange 5 (onAuthStateChange 4 new_AuthService))) = [5]
   \<and> invoked (notifyListeners quiet (JBool True) (notifyListeners (unsubscribing 4 4) JNull
        (onAuthStateChange 5 (onAuthStateChange 4 new_AuthService))))
      = [(4, JNull), (5, JNull), (5, JBool True)]"
proof -
  let ?s = "onAuthStateChange 5 (onAuthStateChange 4 new_AuthService)"
  have h: "allocated ?s" "4 \<in> set (listeners ?s)"
    by (simp_all add: allocated_def listeners_def onAuthStateChange_def new_AuthService_def)
  have l: "listeners ?s = [4, 5]" "invoked ?s = []"
    by (simp_all add: listeners_def onAuthStateChange_def new_AuthService_def)
  from unsubscribe_during_fan_out
    [where s = ?s and d = 4 and t = 4 and u = JNull and u' = "JBool True" and beh = quiet] h
  have "invoked (notifyListeners (unsubscribing 4 4) JNull ?s)
        = invoked ?s @ map (\<lambda>c. (c, JNull)) (listeners ?s)
      \<and> listeners (notifyListeners (unsubscribing 4 4) JNull ?s)
        = filter (\<lambda>listener. listener \<noteq> 4) (listeners ?s)
      \<and> invoked (notifyListeners quiet (JBool True) (notifyListeners (unsubscribing 4 4) JNull ?s))
        = invoked ?s @ map (\<lambda>c. (c, JNull)) (listeners ?s)
            @ map (\<lambda>c. (c, JBool True)) (filter (\<lambda>listener. listener \<noteq> 4) (listeners ?s))"
    by blast
  with h show ?thesis by (simp add: l)
qed

section \<open>The page handlers: properties\<close>

lemmas sample_eval = sample_page_def trim_def lit_def is_whitespace_def js_includes_def
  sublist_code login_inputs_valid_def signup_inputs_valid_def

lemmas page_ops = clearError_def showError_def show_loading_def restore_button_def
  navigate_def log_call_def

lemma catch_unexpected_cases:
  "catch_unexpected err pg =
     (None, showError (lit ''An unexpected error occurred. Please try again.'') pg)
   \<or> catch_unexpected err pg = (Some TypeError, pg)"
  by (simp add: catch_unexpected_def)

lemma handleLogin_invalid:
  assumes "\<not> login_inputs_valid pg"
  shows "\<exists>m. handleLogin L pg = (None, showError m (clearError pg))"
  using assms by (auto simp: handleLogin_def login_inputs_valid_def Let_def)

lemma handleLogin_valid:
  assumes "login_inputs_valid pg"
  shows "handleLogin L pg =
     (let pg2 = log_call (GatewayLogin (trim (email_value pg)) (password_value pg))
                  (show_loading (clearError pg));
          (thrown, pg3) =
            (case L (trim (email_value pg)) (password_value pg) of
               Inl err \<Rightarrow> catch_unexpected err pg2
             | Inr result \<Rightarrow>
                 if success result then (None, navigate (lit ''hub.html'') pg2)
                 else (None, showError (or_default (error result) (lit ''Login failed'')) pg2))
      in (thrown, restore_button (button_text pg) pg3))"
  using assms by (simp add: handleLogin_def login_inputs_valid_def Let_def clearError_def)

lemma handleSignup_invalid:
  assumes "\<not> signup_inputs_valid pg"
  shows "\<exists>m. handleSignup S P pg = (None, showError m (clearError pg))"
  using assms by (auto simp: handleSignup_def signup_inputs_valid_def Let_def)

lemma handleSignup_valid:
  assumes "signup_inputs_valid pg"
  shows "handleSignup S P pg =
     (let (thrown, pg2) =
            signup_try S P (trim (email_value pg)) (password_value pg) (trim (username_value pg))
              (show_loading (clearError pg))
      in (thrown, restore_button (button_text pg) pg2))"
  using assms by (simp add: handleSignup_def signup_inputs_valid_def Let_def clearError_def)

text \<open>What the \<open>catch\<close> block can do to a page.\<close>
lemma catch_unexpected_frame:
  assumes "catch_unexpected err pg = (thrown, pg')"
  shows "button_text pg' = button_text pg \<and> location_href pg' = location_href pg
    \<and> (\<exists>post. trace pg' = trace pg @ post \<and> ButtonRestore \<notin> set post)"
  using assms by (auto simp: catch_unexpected_def showError_def split: if_splits)

lemma login_effects_restore:
  assumes "login_inputs_valid pg"
  shows "\<not> button_disabled (snd (handleLogin L pg)) \<and> \<not> button_loading (snd (handleLogin L pg))
    \<and> button_text (snd (handleLogin L pg)) = button_text pg
    \<and> last (effects (handleLogin L) pg) = ButtonRestore"
  by (auto simp: handleLogin_valid [OF assms] effects_def Let_def page_ops catch_unexpected_def
      split: sum.splits prod.splits if_splits)

lemma signup_try_trace:
  "\<exists>post. trace (snd (signup_try S P e p u pg)) = trace pg @ GatewaySignup e p # post"
  by (auto simp: signup_try_def Let_def page_ops catch_unexpected_def
      split: sum.splits prod.splits if_splits)

lemma signup_effects_restore:
  assumes "signup_inputs_valid pg"
  shows "\<not> button_disabled (snd (handleSignup S P pg)) \<and> \<not> button_loading (snd (handleSignup S P pg))
    \<and> button_text (snd (handleSignup S P pg)) = button_text pg
    \<and> last (effects (handleSignup S P) pg) = ButtonRestore"
proof -
  let ?body = "signup_try S P (trim (email_value pg)) (password_value pg)
                (trim (username_value pg)) (show_loading (clearError pg))"
  have hs: "handleSignup S P pg = (fst ?body, restore_button (button_text pg) (snd ?body))"
    by (simp add: handleSignup_valid [OF assms] split_beta)
  obtain post where p: "trace (snd ?body) = trace (show_loading (clearError pg))
        @ GatewaySignup (trim (email_value pg)) (password_value pg) # post"
    using signup_try_trace by blast
  have "trace (show_loading (clearError pg)) = trace pg @ [ButtonLoading]"
    by (simp add: page_ops)
  with p have "trace (snd ?body) = trace pg @ ButtonLoading
        # GatewaySignup (trim (email_value pg)) (password_value pg) # post" by simp
  then show ?thesis
    by (simp add: hs effects_def restore_button_def)
qed


lemma handleSignup_effects_valid:
  assumes "signup_inputs_valid pg"
  shows "effects (handleSignup S P) pg = ButtonLoading # try_effects S P pg @ [ButtonRestore]"
proof -
  let ?pg1 = "show_loading (clearError pg)"
  let ?body = "signup_try S P (trim (email_value pg)) (password_value pg)
                (trim (username_value pg)) ?pg1"
  have hs: "handleSignup S P pg = (fst ?body, restore_button (button_text pg) (snd ?body))"
    by (simp add: handleSignup_valid [OF assms] split_beta)
  obtain post where p: "trace (snd ?body) = trace ?pg1
        @ GatewaySignup (trim (email_value pg)) (password_value pg) # post"
    using signup_try_trace by blast
  have t1: "trace ?pg1 = trace pg @ [ButtonLoading]" by (simp add: page_ops)
  have "try_effects S P pg = GatewaySignup (trim (email_value pg)) (password_value pg) # post"
    unfolding try_effects_def p by simp
  moreover have "effects (handleSignup S P) pg
      = ButtonLoading # GatewaySignup (trim (email_value pg)) (password_value pg) # post
          @ [ButtonRestore]"
    using p t1 by (simp add: hs effects_def restore_button_def)
  ultimately show ?thesis by simp
qed

lemma handleSignup_effects_invalid:
  assumes "\<not> signup_inputs_valid pg"
  shows "\<exists>m. effects (handleSignup S P) pg = [ShowError m]"
proof -
  obtain m where "handleSignup S P pg = (None, showError m (clearError pg))"
    using handleSignup_invalid [OF assms] by blast
  then show ?thesis by (simp add: effects_def page_ops)
qed

lemma signup_try_cases:
  "drop (length (trace pg)) (trace (snd (signup_try S P e p u pg))) =
     (case S e p of
        Inl err \<Rightarrow> GatewaySignup e p # drop (length (trace pg) + 1) (trace (snd (catch_unexpected err (log_call (GatewaySignup e p) pg))))
      | Inr r \<Rightarrow>
          if \<not> success r then [GatewaySignup e p, ShowError (or_default (error r) (lit ''Signup failed''))]
          else if \<not> truthy (user_value r) \<or> \<not> truthy (field (user_value r) ''id'')
          then [GatewaySignup e p, ShowError (lit ''Failed to create user account'')]
          else GatewaySignup e p # GatewayCreateProfile (field (user_value r) ''id'') u #
            (case P (field (user_value r) ''id'') u of
               Inl err \<Rightarrow> (if has_message err then [ShowError (lit ''An unexpected error occurred. Please try again.'')] else [])
             | Inr pr \<Rightarrow> if \<not> success pr then [ShowError (or_default (error pr) (lit ''Failed to create user profile''))]
                 else [Navigate (lit ''hub.html'')]))"
  by (auto simp: signup_try_def Let_def page_ops catch_unexpected_def
      split: sum.splits if_splits)

lemma signup_try_profile_called:
  assumes "GatewayCreateProfile userId username
      \<in> set (drop (length (trace pg)) (trace (snd (signup_try S P e p u pg))))"
  shows "\<exists>r. S e p = Inr r \<and> success r \<and> truthy (user_value r)
        \<and> userId = field (user_value r) ''id'' \<and> truthy userId \<and> username = u
        \<and> (\<exists>post. drop (length (trace pg)) (trace (snd (signup_try S P e p u pg)))
              = GatewaySignup e p # GatewayCreateProfile userId username # post)"
  using assms unfolding signup_try_cases
  by (auto simp: catch_unexpected_def page_ops split: sum.splits if_splits)

lemma truthy_nonempty: "truthy v \<Longrightarrow> v \<noteq> JUndefined \<and> v \<noteq> JNull \<and> v \<noteq> JStr []"
  by (cases v) auto


lemma handleLogin_effects_invalid:
  assumes "\<not> login_inputs_valid pg"
  shows "\<exists>m. effects (handleLogin L) pg = [ShowError m]"
proof -
  obtain m where "handleLogin L pg = (None, showError m (clearError pg))"
    using handleLogin_invalid [OF assms] by blast
  then show ?thesis by (simp add: effects_def page_ops)
qed

lemma handleLogin_button_invalid:
  assumes "\<not> login_inputs_valid pg"
  shows "button_disabled (snd (handleLogin L pg)) = button_disabled pg
    \<and> button_loading (snd (handleLogin L pg)) = button_loading pg
    \<and> button_text (snd (handleLogin L pg)) = button_text pg"
proof -
  obtain m where "handleLogin L pg = (None, showError m (clearError pg))"
    using handleLogin_invalid [OF assms] by blast
  then show ?thesis by (simp add: page_ops)
qed

lemma handleSignup_button_invalid:
  assumes "\<not> signup_inputs_valid pg"
  shows "button_disabled (snd (handleSignup S P pg)) = button_disabled pg
    \<and> button_loading (snd (handleSignup S P pg)) = button_loading pg
    \<and> button_text (snd (handleSignup S P pg)) = button_text pg"
proof -
  obtain m where "handleSignup S P pg = (None, showError m (clearError pg))"
    using handleSignup_invalid [OF assms] by blast
  then show ?thesis by (simp add: page_ops)
qed

lemma handleLogin_success_effects:
  assumes "login_inputs_valid pg" "L (trim (email_value pg)) (password_value pg) = Inr r"
    "success r"
  shows "effects (handleLogin L) pg =
     [ButtonLoading, GatewayLogin (trim (email_value pg)) (password_value pg),
      Navigate (lit ''hub.html''), ButtonRestore]"
  using assms(2,3) by (simp add: handleLogin_valid [OF assms(1)] effects_def Let_def page_ops)

lemma handleSignup_success_effects:
  assumes "signup_inputs_valid pg" "S (trim (email_value pg)) (password_value pg) = Inr r"
    "success r" "truthy (user_value r)" "truthy (field (user_value r) ''id'')"
    "P (field (user_value r) ''id'') (trim (username_value pg)) = Inr pr" "success pr"
  shows "effects (handleSignup S P) pg =
     [ButtonLoading, GatewaySignup (trim (email_value pg)) (password_value pg),
      GatewayCreateProfile (field (user_value r) ''id'') (trim (username_value pg)),
      Navigate (lit ''hub.html''), ButtonRestore]"
  using assms(2-)
  by (simp add: handleSignup_effects_valid [OF assms(1)] try_effects_def signup_try_cases)

text \<open>
  C5. In both handlers the \<open>finally\<close> block restores the button (not disabled, not loading,
  its label back) on every path that has passed the local checks: success, failure and
  exception alike; on the success path it runs after the navigation has been set off. When a
  local check fails the button is neither put into the loading state nor restored.
\<close>

theorem button_restored_on_every_path:
  "(login_inputs_valid pg \<longrightarrow>
      \<not> button_disabled (snd (handleLogin L pg)) \<and> \<not> button_loading (snd (handleLogin L pg))
      \<and> button_text (snd (handleLogin L pg)) = button_text pg
      \<and> last (effects (handleLogin L) pg) = ButtonRestore)
   \<and> (signup_inputs_valid pg \<longrightarrow>
      \<not> button_disabled (snd (handleSignup S P pg)) \<and> \<not> button_loading (snd (handleSignup S P pg))
      \<and> button_text (snd (handleSignup S P pg)) = button_text pg
      \<and> last (effects (handleSignup S P) pg) = ButtonRestore)
   \<and> (login_inputs_valid pg \<and> L (trim (email_value pg)) (password_value pg) = Inr r \<and> success r
      \<longrightarrow> effects (handleLogin L) pg =
            [ButtonLoading, GatewayLogin (trim (email_value pg)) (password_value pg),
             Navigate (lit ''hub.html''), ButtonRestore])
   \<and> (signup_inputs_valid pg \<and> S (trim (email_value pg)) (password_value pg) = Inr r
        \<and> success r \<and> truthy (user_value r) \<and> truthy (field (user_value r) ''id'')
        \<and> P (field (user_value r) ''id'') (trim (username_value pg)) = Inr pr \<and> success pr
      \<longrightarrow> effects (handleSignup S P) pg =
            [ButtonLoading, GatewaySignup (trim (email_value pg)) (password_value pg),
             GatewayCreateProfile (field (user_value r) ''id'') (trim (username_value pg)),
             Navigate (lit ''hub.html''), ButtonRestore])
   \<and> (\<not> login_inputs_valid pg \<longrightarrow>
        ButtonRestore \<notin> set (effects (handleLogin L) pg)
        \<and> ButtonLoading \<notin> set (effects (handleLogin L) pg)
        \<and> button_disabled (snd (handleLogin L pg)) = button_disabled pg)
   \<and> (\<not> signup_inputs_valid pg \<longrightarrow>
        ButtonRestore \<notin> set (effects (handleSignup S P) pg)
        \<and> ButtonLoading \<notin> set (effects (handleSignup S P) pg)
        \<and> button_disabled (snd (handleSignup S P pg)) = button_disabled pg)"
proof -
  have a: "\<not> login_inputs_valid pg \<Longrightarrow>
        ButtonRestore \<notin> set (effects (handleLogin L) pg)
        \<and> ButtonLoading \<notin> set (effects (handleLogin L) pg)
        \<and> button_disabled (snd (handleLogin L pg)) = button_disabled pg"
    using handleLogin_effects_invalid [of pg L] handleLogin_button_invalid [of pg L] by auto
  have b: "\<not> signup_inputs_valid pg \<Longrightarrow>
        ButtonRestore \<notin> set (effects (handleSignup S P) pg)
        \<and> ButtonLoading \<notin> set (effects (handleSignup S P) pg)
        \<and> button_disabled (snd (handleSignup S P pg)) = button_disabled pg"
    using handleSignup_effects_invalid [of pg S P] handleSignup_button_invalid [of pg S P]
    by auto
  have c: "login_inputs_valid pg \<and> L (trim (email_value pg)) (password_value pg) = Inr r
      \<and> success r
      \<longrightarrow> effects (handleLogin L) pg =
            [ButtonLoading, GatewayLogin (trim (email_value pg)) (password_value pg),
             Navigate (lit ''hub.html''), ButtonRestore]"
    using handleLogin_success_effects by blast
  have d: "signup_inputs_valid pg \<and> S (trim (email_value pg)) (password_value pg) = Inr r
        \<and> success r \<and> truthy (user_value r) \<and> truthy (field (user_value r) ''id'')
        \<and> P (field (user_value r) ''id'') (trim (username_value pg)) = Inr pr \<and> success pr
      \<longrightarrow> effects (handleSignup S P) pg =
            [ButtonLoading, GatewaySignup (trim (email_value pg)) (password_value pg),
             GatewayCreateProfile (field (user_value r) ''id'') (trim (username_value pg)),
             Navigate (lit ''hub.html''), ButtonRestore]"
    using handleSignup_success_effects by blast
  from a b c d login_effects_restore [of pg L] signup_effects_restore [of pg S P]
  show ?thesis by blast
qed

theorem button_restored_on_every_path_witness:
  "login_inputs_valid sample_page
   \<and> effects (handleLogin (answering
        (Inr \<lparr>success = True, error = None, user = Some JNull, session = Some JNull\<rparr>)))
       sample_page
     = [ButtonLoading, GatewayLogin (trim (email_value sample_page)) (password_value sample_page),
        Navigate (lit ''hub.html''), ButtonRestore]
   \<and> signup_inputs_valid sample_page
   \<and> last (effects (handleSignup (signup offline) (createUserProfile offline)) sample_page)
     = ButtonRestore
   \<and> \<not> login_inputs_valid (sample_page\<lparr>password_value := []\<rparr>)
   \<and> ButtonRestore \<notin> set (effects (handleLogin (login offline))
                                (sample_page\<lparr>password_value := []\<rparr>))"
proof -
  let ?ok = "\<lparr>success = True, error = None, user = Some JNull, session = Some JNull\<rparr>"
  have v1: "login_inputs_valid sample_page" by (simp add: sample_eval)
  have v2: "signup_inputs_valid sample_page" by (simp add: sample_eval)
  have v3: "\<not> login_inputs_valid (sample_page\<lparr>password_value := []\<rparr>)"
    by (simp add: login_inputs_valid_def)
  have s: "login_inputs_valid sample_page
      \<and> answering (Inr ?ok) (trim (email_value sample_page)) (password_value sample_page)
          = Inr ?ok \<and> success ?ok"
    using v1 by (simp add: answering_def)
  note T1 = button_restored_on_every_path
    [where pg = sample_page and L = "answering (Inr ?ok)" and r = ?ok
       and S = "signup offline" and P = "createUserProfile offline"]
  note T2 = button_restored_on_every_path
    [where pg = "sample_page\<lparr>password_value := []\<rparr>" and L = "login offline"]
  from T1 [THEN conjunct2, THEN conjunct2, THEN conjunct1] s
  have a: "effects (handleLogin (answering (Inr ?ok))) sample_page
     = [ButtonLoading, GatewayLogin (trim (email_value sample_page)) (password_value sample_page),
        Navigate (lit ''hub.html''), ButtonRestore]"
    by (rule mp)
  from T1 [THEN conjunct2, THEN conjunct1] v2
  have "\<not> button_disabled (snd (handleSignup (signup offline) (createUserProfile offline) sample_page))
      \<and> \<not> button_loading (snd (handleSignup (signup offline) (createUserProfile offline) sample_page))
      \<and> button_text (snd (handleSignup (signup offline) (createUserProfile offline) sample_page))
          = button_text sample_page
      \<and> last (effects (handleSignup (signup offline) (createUserProfile offline)) sample_page)
          = ButtonRestore"
    by (rule mp)
  hence b: "last (effects (handleSignup (signup offline) (createUserProfile offline)) sample_page)
          = ButtonRestore" by (elim conjE)
  from T2 [THEN conjunct2, THEN conjunct2, THEN conjunct2, THEN conjunct2, THEN conjunct1] v3
  have "ButtonRestore \<notin> set (effects (handleLogin (login offline))
                                (sample_page\<lparr>password_value := []\<rparr>))
        \<and> ButtonLoading \<notin> set (effects (handleLogin (login offline))
                                (sample_page\<lparr>password_value := []\<rparr>))
        \<and> button_disabled (snd (handleLogin (login offline) (sample_page\<lparr>password_value := []\<rparr>)))
            = button_disabled (sample_page\<lparr>password_value := []\<rparr>)"
    by (rule mp)
  hence c: "ButtonRestore \<notin> set (effects (handleLogin (login offline))
                                (sample_page\<lparr>password_value := []\<rparr>))" by (elim conjE)
  from v1 a v2 b v3 c show ?thesis by (intro conjI)
qed

text \<open>A successful login: the button is restored after the navigation, and ends enabled.\<close>

theorem button_restore_skipped_counterexample:
  "effects (handleLogin (answering
        (Inr \<lparr>success = True, error = None, user = Some JNull, session = Some JNull\<rparr>)))
       sample_page
     = [ButtonLoading, GatewayLogin (lit ''kieran@example.com'') (lit ''s3cret!''),
        Navigate (lit ''hub.html''), ButtonRestore]
   \<and> \<not> button_disabled (snd (handleLogin (answering
        (Inr \<lparr>success = True, error = None, user = Some JNull, session = Some JNull\<rparr>))
       sample_page))"
  by (simp add: effects_def handleLogin_def sample_page_def trim_def lit_def is_whitespace_def
      js_includes_def sublist_code page_ops answering_def Let_def)




text \<open>
  C6. The signup handler calls \<open>profileService.createUserProfile\<close> only after
  \<open>authService.signup\<close> has returned a success whose user has a truthy \<open>id\<close> (so not missing and
  not the empty string), with that \<open>id\<close> and the trimmed username; and when
  \<open>createUserProfile\<close> returns \<open>{success: false, error: "Failed to create user profile"}\<close> the
  handler shows exactly that message and does not navigate.
\<close>

theorem createUserProfile_after_signup:
  "(GatewayCreateProfile userId username \<in> set (effects (handleSignup S P) pg) \<longrightarrow>
      signup_inputs_valid pg
      \<and> (\<exists>r. S (trim (email_value pg)) (password_value pg) = Inr r \<and> success r
            \<and> truthy (user_value r) \<and> userId = field (user_value r) ''id'')
      \<and> truthy userId \<and> userId \<noteq> JUndefined \<and> userId \<noteq> JNull \<and> userId \<noteq> JStr []
      \<and> username = trim (username_value pg)
      \<and> (\<exists>post. effects (handleSignup S P) pg
            = ButtonLoading # GatewaySignup (trim (email_value pg)) (password_value pg)
                # GatewayCreateProfile userId username # post))
   \<and> (signup_inputs_valid pg \<and> S (trim (email_value pg)) (password_value pg) = Inr r
        \<and> success r \<and> truthy (user_value r) \<and> truthy (field (user_value r) ''id'')
        \<and> P (field (user_value r) ''id'') (trim (username_value pg))
            = Inr \<lparr>success = False, error = Some (lit ''Failed to create user profile'')\<rparr>
      \<longrightarrow> fst (handleSignup S P pg) = None
          \<and> error_text (snd (handleSignup S P pg)) = lit ''Failed to create user profile''
          \<and> error_show (snd (handleSignup S P pg))
          \<and> location_href (snd (handleSignup S P pg)) = location_href pg
          \<and> effects (handleSignup S P) pg
              = [ButtonLoading, GatewaySignup (trim (email_value pg)) (password_value pg),
                 GatewayCreateProfile (field (user_value r) ''id'') (trim (username_value pg)),
                 ShowError (lit ''Failed to create user profile''), ButtonRestore])"
proof -
  have nonempty: "lit ''Failed to create user profile'' \<noteq> []" by (simp add: lit_def)
  have one: "signup_inputs_valid pg
      \<and> (\<exists>r. S (trim (email_value pg)) (password_value pg) = Inr r \<and> success r
            \<and> truthy (user_value r) \<and> userId = field (user_value r) ''id'')
      \<and> truthy userId \<and> userId \<noteq> JUndefined \<and> userId \<noteq> JNull \<and> userId \<noteq> JStr []
      \<and> username = trim (username_value pg)
      \<and> (\<exists>post. effects (handleSignup S P) pg
            = ButtonLoading # GatewaySignup (trim (email_value pg)) (password_value pg)
                # GatewayCreateProfile userId username # post)"
    if m: "GatewayCreateProfile userId username \<in> set (effects (handleSignup S P) pg)"
  proof -
    have valid: "signup_inputs_valid pg"
    proof (rule ccontr)
      assume "\<not> signup_inputs_valid pg"
      then obtain msg where "effects (handleSignup S P) pg = [ShowError msg]"
        using handleSignup_effects_invalid by blast
      with m show False by simp
    qed
    have "GatewayCreateProfile userId username \<in> set (try_effects S P pg)"
      using m by (simp add: handleSignup_effects_valid [OF valid])
    from signup_try_profile_called [OF this [unfolded try_effects_def]]
    obtain r post where r: "S (trim (email_value pg)) (password_value pg) = Inr r" "success r"
      "truthy (user_value r)" "userId = field (user_value r) ''id''" "truthy userId"
      "username = trim (username_value pg)"
      "try_effects S P pg = GatewaySignup (trim (email_value pg)) (password_value pg)
          # GatewayCreateProfile userId username # post"
      unfolding try_effects_def by blast
    have "effects (handleSignup S P) pg
            = ButtonLoading # GatewaySignup (trim (email_value pg)) (password_value pg)
                # GatewayCreateProfile userId username # (post @ [ButtonRestore])"
      by (simp add: handleSignup_effects_valid [OF valid] r(7))
    with valid r truthy_nonempty [OF r(5)] show ?thesis by blast
  qed
  have two: "fst (handleSignup S P pg) = None
          \<and> error_text (snd (handleSignup S P pg)) = lit ''Failed to create user profile''
          \<and> error_show (snd (handleSignup S P pg))
          \<and> location_href (snd (handleSignup S P pg)) = location_href pg
          \<and> effects (handleSignup S P) pg
              = [ButtonLoading, GatewaySignup (trim (email_value pg)) (password_value pg),
                 GatewayCreateProfile (field (user_value r) ''id'') (trim (username_value pg)),
                 ShowError (lit ''Failed to create user profile''), ButtonRestore]"
    if "signup_inputs_valid pg" "S (trim (email_value pg)) (password_value pg) = Inr r"
      "success r" "truthy (user_value r)" "truthy (field (user_value r) ''id'')"
      "P (field (user_value r) ''id'') (trim (username_value pg))
            = Inr \<lparr>success = False, error = Some (lit ''Failed to create user profile'')\<rparr>"
    using that(2-) nonempty
    by (simp add: handleSignup_valid [OF that(1)] effects_def signup_try_def Let_def page_ops)
  from one two show ?thesis by blast
qed

theorem createUserProfile_after_signup_witness:
  "signup_inputs_valid sample_page
   \<and> error_text (snd (handleSignup
        (answering (Inr \<lparr>success = True, error = None,
                         user = Some (JObj [(''id'', JStr (lit ''u1''))]), session = None\<rparr>))
        (answering (Inr \<lparr>success = False,
                         error = Some (lit ''Failed to create user profile'')\<rparr>))
        sample_page)) = lit ''Failed to create user profile''
   \<and> location_href (snd (handleSignup
        (answering (Inr \<lparr>success = True, error = None,
                         user = Some (JObj [(''id'', JStr (lit ''u1''))]), session = None\<rparr>))
        (answering (Inr \<lparr>success = False,
                         error = Some (lit ''Failed to create user profile'')\<rparr>))
        sample_page)) = location_href sample_page
   \<and> truthy (JStr (lit ''u1''))"
proof -
  let ?r = "\<lparr>success = True, error = None,
      user = Some (JObj [(''id'', JStr (lit ''u1''))]), session = None\<rparr>"
  let ?pr = "\<lparr>success = False, error = Some (lit ''Failed to create user profile'')\<rparr>"
  let ?S = "answering (Inr ?r) :: jsstring \<Rightarrow> jsstring \<Rightarrow> AuthResponse result"
  let ?P = "answering (Inr ?pr) :: jsval \<Rightarrow> jsstring \<Rightarrow> ProfileResponse result"
  have v: "signup_inputs_valid sample_page" by (simp add: sample_eval)
  have h: "signup_inputs_valid sample_page
      \<and> ?S (trim (email_value sample_page)) (password_value sample_page) = Inr ?r
      \<and> success ?r \<and> truthy (user_value ?r) \<and> truthy (field (user_value ?r) ''id'')
      \<and> ?P (field (user_value ?r) ''id'') (trim (username_value sample_page)) = Inr ?pr"
    using v by (simp add: answering_def user_value_def lit_def)
  note T = createUserProfile_after_signup
    [where pg = sample_page and S = ?S and P = ?P and r = ?r
       and userId = "JStr (lit ''u1'')" and username = "trim (username_value sample_page)"]
  from T [THEN conjunct2] h
  have two: "fst (handleSignup ?S ?P sample_page) = None
      \<and> error_text (snd (handleSignup ?S ?P sample_page)) = lit ''Failed to create user profile''
      \<and> error_show (snd (handleSignup ?S ?P sample_page))
      \<and> location_href (snd (handleSignup ?S ?P sample_page)) = location_href sample_page
      \<and> effects (handleSignup ?S ?P) sample_page
          = [ButtonLoading,
             GatewaySignup (trim (email_value sample_page)) (password_value sample_page),
             GatewayCreateProfile (field (user_value ?r) ''id'')
               (trim (username_value sample_page)),
             ShowError (lit ''Failed to create user profile''), ButtonRestore]"
    by (rule mp)
  hence m: "GatewayCreateProfile (JStr (lit ''u1'')) (trim (username_value sample_page))
      \<in> set (effects (handleSignup ?S ?P) sample_page)"
    by (simp add: user_value_def)
  from T [THEN conjunct1] m
  have "signup_inputs_valid sample_page
      \<and> (\<exists>r. ?S (trim (email_value sample_page)) (password_value sample_page) = Inr r
            \<and> success r \<and> truthy (user_value r)
            \<and> JStr (lit ''u1'') = field (user_value r) ''id'')
      \<and> truthy (JStr (lit ''u1'')) \<and> JStr (lit ''u1'') \<noteq> JUndefined
      \<and> JStr (lit ''u1'') \<noteq> JNull \<and> JStr (lit ''u1'') \<noteq> JStr []
      \<and> trim (username_value sample_page) = trim (username_value sample_page)
      \<and> (\<exists>post. effects (handleSignup ?S ?P) sample_page
            = ButtonLoading
                # GatewaySignup (trim (email_value sample_page)) (password_value sample_page)
                # GatewayCreateProfile (JStr (lit ''u1'')) (trim (username_value sample_page))
                # post)"
    by (rule mp)
  hence t: "truthy (JStr (lit ''u1''))" by (elim conjE)
  from two have e: "error_text (snd (handleSignup ?S ?P sample_page))
      = lit ''Failed to create user profile''"
    by (elim conjE)
  from two
  have l: "location_href (snd (handleSignup ?S ?P sample_page)) = location_href sample_page"
    by (elim conjE)
  from v e l t show ?thesis by (intro conjI)
qed

end
